theory Spec2Isabelle
  imports Complex_Main "HOL-Library.Multiset"
begin

section \<open>Numbers, keys and small utilities\<close>

text \<open>
  The player computes with JavaScript numbers. They are modelled as mathematical
  numbers: grid coordinates, grid sizes and indices as \<open>int\<close>, times, durations,
  costs and opacities as \<open>real\<close>. Rounding of IEEE doubles, NaN and signed zero are
  outside the model. \<open>Infinity\<close>, which the auto-connection scheduler uses for an
  unbounded phase, is a constructor of its own.
\<close>

text \<open>\<open>player/utils.ts\<close>: \<open>clamp(value, min, max) = Math.min(max, Math.max(min, value))\<close>.\<close>

definition clamp :: "real \<Rightarrow> real \<Rightarrow> real \<Rightarrow> real" where
  "clamp v lo hi = min hi (max lo v)"

text \<open>
  \<open>createPositionKey(x, y)\<close> is the template string \<open>`${x}:${y}`\<close>. On integers the
  string determines the pair and the pair the string, so a key is modelled as the
  pair itself and a \<open>Set<string>\<close> of keys as a set of pairs.
\<close>

type_synonym PositionKey = "int \<times> int"

definition createPositionKey :: "int \<Rightarrow> int \<Rightarrow> PositionKey" where
  "createPositionKey x y = (x, y)"

section \<open>Grid pathfinder (\<open>lib/pathfinding.ts\<close>)\<close>

type_synonym GridPosition = "int \<times> int"

text \<open>
  A \<open>PathNode\<close> object. The \<open>parent\<close> field points to the node that was current when
  this node was pushed or last improved. A node is only mutated while it sits in
  the open list, and it becomes a parent only after it has left the open list for
  good, so a parent is never changed behind a child's back and the reference can
  be modelled as a value.
\<close>

datatype PathNode =
  PathNode (node_x: int) (node_y: int) (node_g: real) (node_h: real) (node_f: real)
    (node_parent: "PathNode option")

definition SQRT2 :: real where
  "SQRT2 = sqrt 2"

definition octileDistance :: "int \<Rightarrow> int \<Rightarrow> int \<Rightarrow> int \<Rightarrow> real" where
  "octileDistance x1 y1 x2 y2 =
     (let dx = \<bar>x1 - x2\<bar>; dy = \<bar>y1 - y2\<bar>
      in real_of_int (max dx dy) + (SQRT2 - 1) * real_of_int (min dx dy))"

record Direction =
  dir_dx :: int
  dir_dy :: int
  dir_cost :: real

definition DIRECTIONS :: "Direction list" where
  "DIRECTIONS =
     [\<lparr>dir_dx = 0, dir_dy = -1, dir_cost = 1\<rparr>,
      \<lparr>dir_dx = 1, dir_dy = -1, dir_cost = SQRT2\<rparr>,
      \<lparr>dir_dx = 1, dir_dy = 0, dir_cost = 1\<rparr>,
      \<lparr>dir_dx = 1, dir_dy = 1, dir_cost = SQRT2\<rparr>,
      \<lparr>dir_dx = 0, dir_dy = 1, dir_cost = 1\<rparr>,
      \<lparr>dir_dx = -1, dir_dy = 1, dir_cost = SQRT2\<rparr>,
      \<lparr>dir_dx = -1, dir_dy = 0, dir_cost = 1\<rparr>,
      \<lparr>dir_dx = -1, dir_dy = -1, dir_cost = SQRT2\<rparr>]"

text \<open>The scan for the open node of lowest \<open>f\<close>: the first of the lowest wins.\<close>

definition lowestIndex :: "PathNode list \<Rightarrow> nat" where
  "lowestIndex openSet =
     foldl (\<lambda>lowest i. if node_f (openSet ! i) < node_f (openSet ! lowest) then i else lowest)
       0 [1 ..< length openSet]"

text \<open>Path reconstruction: follow \<open>parent\<close> to the start, \<open>unshift\<close>ing each cell.\<close>

fun reconstructPath :: "PathNode \<Rightarrow> GridPosition list \<Rightarrow> GridPosition list" where
  "reconstructPath (PathNode x y g h f None) path = (x, y) # path"
| "reconstructPath (PathNode x y g h f (Some p)) path = reconstructPath p ((x, y) # path)"

text \<open>\<open>Array.prototype.findIndex\<close>; the result \<open>-1\<close> is \<open>None\<close>.\<close>

fun findIndex :: "('a \<Rightarrow> bool) \<Rightarrow> 'a list \<Rightarrow> nat option" where
  "findIndex P [] = None"
| "findIndex P (x # xs) =
     (if P x then Some 0 else (case findIndex P xs of None \<Rightarrow> None | Some i \<Rightarrow> Some (Suc i)))"

text \<open>\<open>openSet.splice(lowestIndex, 1)\<close>.\<close>

definition splice1 :: "nat \<Rightarrow> 'a list \<Rightarrow> 'a list" where
  "splice1 i xs = take i xs @ drop (Suc i) xs"

text \<open>
  The body of the loop over \<open>DIRECTIONS\<close> for one direction; the open list is the
  only thing it changes.
\<close>

definition expandDirection ::
  "GridPosition \<Rightarrow> int \<Rightarrow> PositionKey set \<Rightarrow> PositionKey set \<Rightarrow> PathNode \<Rightarrow>
   PathNode list \<Rightarrow> Direction \<Rightarrow> PathNode list" where
  "expandDirection end gridSize workingObstacles closedSet current openSet dir =
     (let nx = node_x current + dir_dx dir;
          ny = node_y current + dir_dy dir;
          neighborKey = createPositionKey nx ny
      in if nx < 0 \<or> ny < 0 \<or> nx \<ge> gridSize \<or> ny \<ge> gridSize then openSet
         else if neighborKey \<in> closedSet then openSet
         else if neighborKey \<in> workingObstacles then openSet
         else if dir_dx dir \<noteq> 0 \<and> dir_dy dir \<noteq> 0 \<and>
                 (createPositionKey (node_x current + dir_dx dir) (node_y current) \<in> workingObstacles \<or>
                  createPositionKey (node_x current) (node_y current + dir_dy dir) \<in> workingObstacles)
         then openSet
         else
           (let gScore = node_g current + dir_cost dir;
                hScore = octileDistance nx ny (fst end) (snd end)
            in case findIndex (\<lambda>n. node_x n = nx \<and> node_y n = ny) openSet of
                 None \<Rightarrow>
                   openSet @ [PathNode nx ny gScore hScore (gScore + hScore) (Some current)]
               | Some existingIndex \<Rightarrow>
                   if gScore < node_g (openSet ! existingIndex)
                   then openSet[existingIndex :=
                          PathNode (node_x (openSet ! existingIndex))
                            (node_y (openSet ! existingIndex))
                            gScore
                            (node_h (openSet ! existingIndex))
                            (gScore + hScore)
                            (Some current)]
                   else openSet))"

definition expandNeighbors ::
  "GridPosition \<Rightarrow> int \<Rightarrow> PositionKey set \<Rightarrow> PositionKey set \<Rightarrow> PathNode \<Rightarrow>
   PathNode list \<Rightarrow> PathNode list" where
  "expandNeighbors end gridSize workingObstacles closedSet current openSet =
     foldl (expandDirection end gridSize workingObstacles closedSet current) openSet DIRECTIONS"

text \<open>
  The \<open>while (openSet.length > 0)\<close> loop. The result \<open>None\<close> of the model stands for a
  loop that never ends; \<open>Some None\<close> is the source's \<open>null\<close> (no path) and
  \<open>Some (Some path)\<close> a returned path.
\<close>

partial_function (option) searchLoop ::
  "GridPosition \<Rightarrow> int \<Rightarrow> PositionKey set \<Rightarrow> PathNode list \<Rightarrow> PositionKey set \<Rightarrow>
   GridPosition list option option" where
  "searchLoop end gridSize workingObstacles openSet closedSet =
     (if length openSet > 0
      then
        if node_x (openSet ! lowestIndex openSet) = fst end \<and>
           node_y (openSet ! lowestIndex openSet) = snd end
        then Some (Some (reconstructPath (openSet ! lowestIndex openSet) []))
        else searchLoop end gridSize workingObstacles
               (expandNeighbors end gridSize workingObstacles
                  (insert (createPositionKey (node_x (openSet ! lowestIndex openSet))
                                             (node_y (openSet ! lowestIndex openSet))) closedSet)
                  (openSet ! lowestIndex openSet)
                  (splice1 (lowestIndex openSet) openSet))
               (insert (createPositionKey (node_x (openSet ! lowestIndex openSet))
                                          (node_y (openSet ! lowestIndex openSet))) closedSet)
      else Some None)"

definition findPath ::
  "GridPosition \<Rightarrow> GridPosition \<Rightarrow> int \<Rightarrow> PositionKey set \<Rightarrow> GridPosition list option option" where
  "findPath start end gridSize obstacles =
     (if fst start = fst end \<and> snd start = snd end then Some (Some [(fst start, snd start)])
      else
        (let startKey = createPositionKey (fst start) (snd start);
             endKey = createPositionKey (fst end) (snd end);
             workingObstacles = obstacles - {startKey} - {endKey};
             startNode = PathNode (fst start) (snd start) 0
                           (octileDistance (fst start) (snd start) (fst end) (snd end))
                           (octileDistance (fst start) (snd start) (fst end) (snd end))
                           None
         in searchLoop end gridSize workingObstacles [startNode] {}))"

text \<open>\<open>buildObstacleSet\<close> and \<open>calculatePathLength\<close>.\<close>

definition buildObstacleSet :: "(int \<times> int) list \<Rightarrow> PositionKey set" where
  "buildObstacleSet dots = foldl (\<lambda>obstacles d. insert (createPositionKey (fst d) (snd d)) obstacles) {} dots"

fun segmentLengths :: "GridPosition list \<Rightarrow> real list" where
  "segmentLengths (a # b # rest) =
     sqrt (real_of_int ((fst b - fst a) * (fst b - fst a)) + real_of_int ((snd b - snd a) * (snd b - snd a)))
       # segmentLengths (b # rest)"
| "segmentLengths _ = []"

definition calculatePathLength :: "GridPosition list \<Rightarrow> real" where
  "calculatePathLength path = (if length path < 2 then 0 else foldl (+) 0 (segmentLengths path))"

section \<open>Data model (\<open>player/types.ts\<close>)\<close>

text \<open>
  One record per interface; the fields carry the name of their interface as a
  prefix. An optional field (\<open>field?: number\<close>) is an \<open>option\<close>. A \<open>ColorRef\<close> is an
  index into the palette.
\<close>

type_synonym ColorRef = int

record DotPlayerDot =
  dot_id :: string
  dot_x :: int
  dot_y :: int
  dot_color :: ColorRef
  dot_fadeInDuration :: "real option"
  dot_fadeOutDuration :: "real option"

record DotPlayerConnection =
  conn_id :: string
  conn_from :: string
  conn_to :: string
  conn_color :: ColorRef
  conn_order :: real
  conn_revealDuration :: "real option"

record AutoConnection =
  ac_id :: string
  ac_fromX :: int
  ac_fromY :: int
  ac_toX :: int
  ac_toY :: int
  ac_color :: ColorRef
  ac_traceInDuration :: real
  ac_traceOutDuration :: "real option"
  ac_traceInReverse :: bool
  ac_traceOutReverse :: bool
  ac_stayDuration :: "real option"
  ac_startTime :: real

record DotPlayerGroupAnimationOverrides =
  ov_fadeInDuration :: "real option"
  ov_fadeOutDuration :: "real option"
  ov_connectionAnimationDuration :: "real option"
  ov_connectionStagger :: "real option"

record DotPlayerGroup =
  group_id :: string
  group_name :: string
  group_color :: string
  group_dotIds :: "string list"
  group_connectionIds :: "string list"
  group_visible :: bool
  group_locked :: bool
  group_animationOverrides :: "DotPlayerGroupAnimationOverrides option"

text \<open>
  The renderer reads \<open>frame.dotColorTransitionDuration\<close> and
  \<open>frame.dotColorTransitionEasing\<close> through \<open>??\<close>, so the model lets them be absent.
\<close>

record DotPlayerFrame =
  frame_id :: string
  frame_name :: string
  frame_dots :: "DotPlayerDot list"
  frame_connections :: "DotPlayerConnection list"
  frame_groups :: "DotPlayerGroup list"
  frame_duration :: real
  frame_easing :: string
  frame_dotFadeInDuration :: real
  frame_dotFadeOutDuration :: real
  frame_dotColorTransitionDuration :: "real option"
  frame_dotColorTransitionEasing :: "string option"
  frame_connectionAnimationDuration :: real
  frame_connectionStagger :: real
  frame_dotStagger :: real
  frame_animateDots :: bool
  frame_animateConnections :: bool

record DotPlayerSettings =
  settings_loopPlayback :: bool
  settings_fadeInOnStart :: bool
  settings_fadeOutOnEnd :: bool
  settings_connectionFadeInOnStart :: bool
  settings_connectionFadeOutOnEnd :: bool

record RgbaColor =
  rgba_r :: real
  rgba_g :: real
  rgba_b :: real
  rgba_a :: real

type_synonym ConnectionKey = "PositionKey \<times> PositionKey"

record ConnectionSegment =
  seg_connection :: DotPlayerConnection
  seg_from :: DotPlayerDot
  seg_to :: DotPlayerDot
  seg_key :: ConnectionKey
  seg_length :: real

text \<open>
  \<open>RenderContext\<close> without its canvas: what the renderer does to
  \<open>ctx\<close> is the list of calls it returns.
\<close>

record RenderContext =
  ctx_canvasSize :: real
  ctx_gridOffset :: real
  ctx_dotGap :: real
  ctx_dotRadius :: real
  ctx_gridSize :: int
  ctx_gridColor :: string
  ctx_gridDotSize :: real
  ctx_showGrid :: bool
  ctx_colors :: "string list"
  ctx_connectionStrokeScale :: real
  ctx_penTipRadiusOffset :: real
  ctx_penTipShadowBlur :: real
  ctx_penTipColor :: string

record FrameRenderState =
  state_frame :: DotPlayerFrame
  state_frameIndex :: int
  state_totalFrames :: int
  state_playhead :: real
  state_settings :: DotPlayerSettings
  state_frames :: "DotPlayerFrame list"

text \<open>
  A CSS colour handed to the canvas: a palette string as it is, or the string
  \<open>rgba(r, g, b, a)\<close> that \<open>mixColors\<close> builds from four numbers.
\<close>

datatype CssColor = ColorString string | RgbaString int int int real

text \<open>
  The calls on the 2D context, in the order they are made. An opacity of \<open>None\<close> is
  \<open>NaN\<close>.
\<close>

datatype DrawOp =
    ClearRect real real real real
  | Save
  | Restore
  | Translate real real
  | SetFillStyle CssColor
  | FillRect real real real real
  | SetLineWidth real
  | SetGlobalAlpha "real option"
  | SetStrokeStyle CssColor
  | SetLineCap string
  | BeginPath
  | MoveTo real real
  | LineTo real real
  | Stroke
  | SetShadowColor CssColor
  | SetShadowBlur real
  | Arc real real real real real
  | Fill

section \<open>Constants (\<open>lib/constants.ts\<close>)\<close>

definition PRESET_COLORS :: "string list" where
  "PRESET_COLORS =
     [''#0f1f1c'', ''#1b998b'', ''#f97316'', ''#e11d48'', ''#facc15'', ''#0ea5e9'', ''#334155'', ''#f1f5f9'']"

definition DEFAULT_DOT_COLOR :: string where
  "DEFAULT_DOT_COLOR = PRESET_COLORS ! 0"

definition DEFAULT_CONNECTION_COLOR :: string where
  "DEFAULT_CONNECTION_COLOR = PRESET_COLORS ! 2"

definition DEFAULT_DOT_COLOR_TRANSITION :: real where
  "DEFAULT_DOT_COLOR_TRANSITION = 240"

definition DEFAULT_DOT_COLOR_TRANSITION_EASING :: string where
  "DEFAULT_DOT_COLOR_TRANSITION_EASING = ''easeInOut''"

section \<open>Easing (\<open>lib/easing.ts\<close>)\<close>

definition clamp01 :: "real \<Rightarrow> real" where
  "clamp01 v = min 1 (max 0 v)"

definition easeLinear :: "real \<Rightarrow> real" where
  "easeLinear t = clamp01 t"

definition easeIn :: "real \<Rightarrow> real" where
  "easeIn t = clamp01 (t * t)"

definition easeOut :: "real \<Rightarrow> real" where
  "easeOut t = clamp01 (1 - (1 - t) ^ 2)"

definition easeInOut :: "real \<Rightarrow> real" where
  "easeInOut t =
     (let clamped = clamp01 t
      in if clamped < 0.5 then 2 * clamped * clamped else 1 - (-2 * clamped + 2) ^ 2 / 2)"

definition easeCubic :: "real \<Rightarrow> real" where
  "easeCubic t = clamp01 (t * t * t)"

definition easeBackIn :: "real \<Rightarrow> real" where
  "easeBackIn t =
     (let s = 1.70158; clamped = clamp01 t
      in clamped * clamped * ((s + 1) * clamped - s))"

definition easeBackOut :: "real \<Rightarrow> real" where
  "easeBackOut t =
     (let s = 1.70158; clamped = clamp01 t - 1
      in clamp01 (1 + clamped * clamped * ((s + 1) * clamped + s)))"

definition easeBackInOut :: "real \<Rightarrow> real" where
  "easeBackInOut t =
     (let s = 1.70158 * 1.525; clamped = clamp01 t * 2
      in if clamped < 1
         then clamp01 (0.5 * (clamped * clamped * ((s + 1) * clamped - s)))
         else (let shifted = clamped - 2
               in clamp01 (0.5 * (shifted * shifted * ((s + 1) * shifted + s) + 2))))"

text \<open>
  The table \<open>easingFunctions\<close>, looked up by name; a name that is not one of the
  eight has no entry (the properties every JavaScript object inherits are not
  modelled).
\<close>

definition easingFunctions :: "string \<Rightarrow> (real \<Rightarrow> real) option" where
  "easingFunctions name =
     (if name = ''linear'' then Some easeLinear
      else if name = ''easeIn'' then Some easeIn
      else if name = ''easeOut'' then Some easeOut
      else if name = ''easeInOut'' then Some easeInOut
      else if name = ''cubic'' then Some easeCubic
      else if name = ''backIn'' then Some easeBackIn
      else if name = ''backOut'' then Some easeBackOut
      else if name = ''backInOut'' then Some easeBackInOut
      else None)"

section \<open>The JavaScript built-ins the colour parser calls\<close>

text \<open>
  Strings are lists of characters, one per UTF-16 code unit of an ASCII string.
  \<open>trim\<close> removes the ASCII white space and line terminators at both ends.
\<close>

definition isWhiteSpaceChar :: "char \<Rightarrow> bool" where
  "isWhiteSpaceChar c =
     (let n = (of_char c :: nat) in (9 \<le> n \<and> n \<le> 13) \<or> n = 32)"

definition trimStart :: "string \<Rightarrow> string" where
  "trimStart s = dropWhile isWhiteSpaceChar s"

definition trim :: "string \<Rightarrow> string" where
  "trim s = rev (dropWhile isWhiteSpaceChar (rev (dropWhile isWhiteSpaceChar s)))"

definition startsWith :: "string \<Rightarrow> string \<Rightarrow> bool" where
  "startsWith s prefix = (take (length prefix) s = prefix)"

text \<open>\<open>s.slice(start, end)\<close> for indices inside \<open>0 .. s.length\<close> or beyond.\<close>

definition slice :: "string \<Rightarrow> nat \<Rightarrow> nat \<Rightarrow> string" where
  "slice s start stop = take (stop - start) (drop start s)"

definition isDigitChar :: "char \<Rightarrow> bool" where
  "isDigitChar c = (let n = (of_char c :: nat) in 48 \<le> n \<and> n \<le> 57)"

definition hexDigitValue :: "char \<Rightarrow> nat option" where
  "hexDigitValue c =
     (let n = (of_char c :: nat)
      in if 48 \<le> n \<and> n \<le> 57 then Some (n - 48)
         else if 97 \<le> n \<and> n \<le> 102 then Some (n - 87)
         else if 65 \<le> n \<and> n \<le> 70 then Some (n - 55)
         else None)"

definition digitsValue :: "nat \<Rightarrow> string \<Rightarrow> nat" where
  "digitsValue radix ds =
     foldl (\<lambda>acc c. radix * acc + (case hexDigitValue c of None \<Rightarrow> 0 | Some d \<Rightarrow> d)) 0 ds"

text \<open>
  \<open>Number.parseInt(s, 16)\<close>: leading white space, a sign, a \<open>0x\<close> prefix, then the
  longest run of hexadecimal digits; \<open>None\<close> is \<open>NaN\<close>.
\<close>

definition parseInt16 :: "string \<Rightarrow> int option" where
  "parseInt16 s =
     (let s1 = trimStart s;
          negative = startsWith s1 ''-'';
          s2 = (if startsWith s1 ''-'' \<or> startsWith s1 ''+'' then drop 1 s1 else s1);
          s3 = (if startsWith s2 ''0x'' \<or> startsWith s2 ''0X'' then drop 2 s2 else s2);
          z = takeWhile (\<lambda>c. hexDigitValue c \<noteq> None) s3
      in if z = [] then None
         else Some ((if negative then -1 else 1) * int (digitsValue 16 z)))"

text \<open>
  \<open>Number(s)\<close> followed by \<open>Number.isFinite\<close>: the numeric value of a string, \<open>None\<close>
  when the string is no numeric literal or denotes an infinity.
\<close>

definition parseExponentPart :: "string \<Rightarrow> int option" where
  "parseExponentPart s =
     (case s of
        [] \<Rightarrow> Some 0
      | c # rest \<Rightarrow>
          if c = CHR ''e'' \<or> c = CHR ''E''
          then (let negative = startsWith rest ''-'';
                    ds = (if startsWith rest ''-'' \<or> startsWith rest ''+'' then drop 1 rest else rest)
                in if ds \<noteq> [] \<and> list_all isDigitChar ds
                   then Some ((if negative then -1 else 1) * int (digitsValue 10 ds))
                   else None)
          else None)"

definition parseUnsignedDecimal :: "string \<Rightarrow> real option" where
  "parseUnsignedDecimal s =
     (let ip = takeWhile isDigitChar s;
          rest = dropWhile isDigitChar s;
          hasDot = startsWith rest ''.'';
          fp = (if hasDot then takeWhile isDigitChar (drop 1 rest) else []);
          rest2 = (if hasDot then dropWhile isDigitChar (drop 1 rest) else rest)
      in if ip = [] \<and> fp = [] then None
         else (case parseExponentPart rest2 of
                 None \<Rightarrow> None
               | Some e \<Rightarrow>
                   Some ((real (digitsValue 10 ip) + real (digitsValue 10 fp) / 10 ^ length fp)
                         * 10 powi e)))"

definition parseNonDecimal :: "nat \<Rightarrow> string \<Rightarrow> real option" where
  "parseNonDecimal radix ds =
     (if ds \<noteq> [] \<and> list_all (\<lambda>c. case hexDigitValue c of None \<Rightarrow> False | Some d \<Rightarrow> d < radix) ds
      then Some (real (digitsValue radix ds))
      else None)"

definition finiteNumber :: "string \<Rightarrow> real option" where
  "finiteNumber s =
     (let t = trim s
      in if t = [] then Some 0
         else if startsWith t ''0x'' \<or> startsWith t ''0X'' then parseNonDecimal 16 (drop 2 t)
         else if startsWith t ''0o'' \<or> startsWith t ''0O'' then parseNonDecimal 8 (drop 2 t)
         else if startsWith t ''0b'' \<or> startsWith t ''0B'' then parseNonDecimal 2 (drop 2 t)
         else if startsWith t ''-'' then map_option uminus (parseUnsignedDecimal (drop 1 t))
         else if startsWith t ''+'' then parseUnsignedDecimal (drop 1 t)
         else parseUnsignedDecimal t)"

text \<open>\<open>Math.round\<close>: to the nearest integer, a half upwards.\<close>

definition mathRound :: "real \<Rightarrow> int" where
  "mathRound v = \<lfloor>v + 1 / 2\<rfloor>"

text \<open>\<open>s.split(",")\<close>.\<close>

fun splitComma :: "string \<Rightarrow> string list" where
  "splitComma [] = [[]]"
| "splitComma (c # cs) =
     (if c = CHR '','' then [] # splitComma cs
      else (case splitComma cs of [] \<Rightarrow> [[c]] | p # ps \<Rightarrow> (c # p) # ps))"

definition toLowerAscii :: "char \<Rightarrow> char" where
  "toLowerAscii c =
     (let n = (of_char c :: nat) in if 65 \<le> n \<and> n \<le> 90 then char_of (n + 32) else c)"

text \<open>
  \<open>value.match(/^rgba?\((.+)\)$/i)\<close>: the capture group, or \<open>None\<close> for no match.
  The dot of the pattern matches no line terminator.
\<close>

definition matchRgb :: "string \<Rightarrow> string option" where
  "matchRgb s =
     (let body =
            (if map toLowerAscii (take 4 s) = ''rgb('' then Some (drop 4 s)
             else if map toLowerAscii (take 5 s) = ''rgba('' then Some (drop 5 s)
             else None)
      in case body of
           None \<Rightarrow> None
         | Some b \<Rightarrow>
             if length b \<ge> 2 \<and> last b = CHR '')'' \<and>
                list_all (\<lambda>c. (of_char c :: nat) \<noteq> 10 \<and> (of_char c :: nat) \<noteq> 13) (butlast b)
             then Some (butlast b)
             else None)"

section \<open>Player utilities (\<open>player/utils.ts\<close>)\<close>

subsection \<open>Positions\<close>

definition deriveDotMap :: "DotPlayerDot list \<Rightarrow> (string \<rightharpoonup> DotPlayerDot)" where
  "deriveDotMap dots = foldl (\<lambda>m dot. m(dot_id dot \<mapsto> dot)) Map.empty dots"

definition deriveDotPositionSet :: "DotPlayerDot list \<Rightarrow> PositionKey set" where
  "deriveDotPositionSet dots =
     foldl (\<lambda>s dot. insert (createPositionKey (dot_x dot) (dot_y dot)) s) {} dots"

definition deriveDotColorMap :: "DotPlayerFrame option \<Rightarrow> (PositionKey \<rightharpoonup> ColorRef)" where
  "deriveDotColorMap frame =
     (case frame of
        None \<Rightarrow> Map.empty
      | Some fr \<Rightarrow>
          foldl (\<lambda>m dot. m(createPositionKey (dot_x dot) (dot_y dot) \<mapsto> dot_color dot))
            Map.empty (frame_dots fr))"

subsection \<open>Connections\<close>

definition isSamePoint :: "DotPlayerDot \<Rightarrow> DotPlayerDot \<Rightarrow> bool" where
  "isSamePoint a b = (dot_x a = dot_x b \<and> dot_y a = dot_y b)"

text \<open>
  \<open>deriveConnectionKey\<close> orders the two position keys by the \<open><\<close> of JavaScript
  strings, so the decimal text of a key and that order are part of the model. The
  string \<open>`${a}-${b}`\<close> is modelled as the pair \<open>(a, b)\<close>.
\<close>

fun natToString :: "nat \<Rightarrow> string" where
  "natToString n =
     (if n < 10 then [char_of (48 + n)]
      else natToString (n div 10) @ [char_of (48 + n mod 10)])"

declare natToString.simps [simp del]

definition numberToString :: "int \<Rightarrow> string" where
  "numberToString i = (if i < 0 then CHR ''-'' # natToString (nat (- i)) else natToString (nat i))"

definition positionKeyString :: "PositionKey \<Rightarrow> string" where
  "positionKeyString k = numberToString (fst k) @ '':'' @ numberToString (snd k)"

fun stringLess :: "string \<Rightarrow> string \<Rightarrow> bool" where
  "stringLess [] [] = False"
| "stringLess [] (b # bs) = True"
| "stringLess (a # as) [] = False"
| "stringLess (a # as) (b # bs) =
     ((of_char a :: nat) < of_char b \<or> (a = b \<and> stringLess as bs))"

definition deriveConnectionKey :: "DotPlayerDot \<Rightarrow> DotPlayerDot \<Rightarrow> ConnectionKey" where
  "deriveConnectionKey from to =
     (let a = createPositionKey (dot_x from) (dot_y from);
          b = createPositionKey (dot_x to) (dot_y to)
      in if stringLess (positionKeyString a) (positionKeyString b) then (a, b) else (b, a))"

definition deriveConnectionKeySet :: "DotPlayerFrame option \<Rightarrow> ConnectionKey set" where
  "deriveConnectionKeySet frame =
     (case frame of
        None \<Rightarrow> {}
      | Some fr \<Rightarrow>
          (let dotMap = deriveDotMap (frame_dots fr)
           in foldl (\<lambda>keys connection.
                       case (dotMap (conn_from connection), dotMap (conn_to connection)) of
                         (Some from, Some to) \<Rightarrow> insert (deriveConnectionKey from to) keys
                       | _ \<Rightarrow> keys)
                {} (frame_connections fr)))"

text \<open>\<open>Array.prototype.sort\<close> is stable, as \<open>sort_key\<close> is.\<close>

definition ensureFrameOrder :: "DotPlayerConnection list \<Rightarrow> DotPlayerConnection list" where
  "ensureFrameOrder connections =
     map (\<lambda>(index, connection). connection\<lparr>conn_order := real index\<rparr>)
       (enumerate 0 (sort_key conn_order connections))"

definition hypot :: "real \<Rightarrow> real \<Rightarrow> real" where
  "hypot a b = sqrt (a * a + b * b)"

definition sharesEndpoint :: "ConnectionSegment \<Rightarrow> ConnectionSegment \<Rightarrow> bool" where
  "sharesEndpoint lastSeg segment =
     (isSamePoint (seg_from lastSeg) (seg_from segment) \<or>
      isSamePoint (seg_from lastSeg) (seg_to segment) \<or>
      isSamePoint (seg_to lastSeg) (seg_from segment) \<or>
      isSamePoint (seg_to lastSeg) (seg_to segment))"

definition pushPath ::
  "ConnectionSegment list list \<times> ConnectionSegment list \<Rightarrow>
   ConnectionSegment list list \<times> ConnectionSegment list" where
  "pushPath st =
     (case st of (paths, currentPath) \<Rightarrow>
        if currentPath \<noteq> [] then (paths @ [currentPath], []) else (paths, currentPath))"

text \<open>One turn of the loop of \<open>buildConnectionPaths\<close>; the state is \<open>(paths, currentPath)\<close>.\<close>

definition buildConnectionPathsStep ::
  "(string \<rightharpoonup> DotPlayerDot) \<Rightarrow> ConnectionSegment list list \<times> ConnectionSegment list \<Rightarrow>
   DotPlayerConnection \<Rightarrow> ConnectionSegment list list \<times> ConnectionSegment list" where
  "buildConnectionPathsStep dotMap st connection =
     (case (dotMap (conn_from connection), dotMap (conn_to connection)) of
        (Some from, Some to) \<Rightarrow>
          (let segment = \<lparr>seg_connection = connection, seg_from = from, seg_to = to,
                          seg_key = deriveConnectionKey from to,
                          seg_length = hypot (real_of_int (dot_x to - dot_x from))
                                             (real_of_int (dot_y to - dot_y from))\<rparr>
           in case st of (paths, currentPath) \<Rightarrow>
                if currentPath = [] then (paths, currentPath @ [segment])
                else if sharesEndpoint (last currentPath) segment
                then (paths, currentPath @ [segment])
                else (case pushPath (paths, currentPath) of
                        (paths', currentPath') \<Rightarrow> (paths', currentPath' @ [segment])))
      | _ \<Rightarrow> st)"

definition buildConnectionPaths ::
  "DotPlayerConnection list \<Rightarrow> (string \<rightharpoonup> DotPlayerDot) \<Rightarrow> ConnectionSegment list list" where
  "buildConnectionPaths connections dotMap =
     fst (pushPath (foldl (buildConnectionPathsStep dotMap) ([], []) (ensureFrameOrder connections)))"

subsection \<open>Colours\<close>

text \<open>
  The module keeps \<open>colorCache\<close>, a map from trimmed colour strings to parsed
  colours, for as long as the page lives. The model passes the cache in and out
  of every function that reaches it.
\<close>

type_synonym ColorCache = "string \<rightharpoonup> RgbaColor"

definition parseHexColor :: "string \<Rightarrow> RgbaColor option" where
  "parseHexColor v =
     (let hex = drop 1 (trim v);
          read = (\<lambda>start len. parseInt16 (slice hex start (start + len)))
      in if length hex \<notin> {3, 4, 6, 8} then None
         else if length hex = 3 \<or> length hex = 4
         then (case (read 0 1, read 1 1, read 2 1,
                     if length hex = 4 then map_option (\<lambda>n. real_of_int n / 255) (read 3 1) else Some 1) of
                 (Some r, Some g, Some b, Some a) \<Rightarrow>
                   Some \<lparr>rgba_r = real_of_int (r * 17), rgba_g = real_of_int (g * 17),
                         rgba_b = real_of_int (b * 17), rgba_a = clamp a 0 1\<rparr>
               | _ \<Rightarrow> None)
         else (case (read 0 2, read 2 2, read 4 2,
                     if length hex = 8 then map_option (\<lambda>n. real_of_int n / 255) (read 6 2) else Some 1) of
                 (Some r, Some g, Some b, Some a) \<Rightarrow>
                   Some \<lparr>rgba_r = real_of_int r, rgba_g = real_of_int g,
                         rgba_b = real_of_int b, rgba_a = clamp a 0 1\<rparr>
               | _ \<Rightarrow> None))"

definition parseRgbColor :: "string \<Rightarrow> RgbaColor option" where
  "parseRgbColor v =
     (case matchRgb (trim v) of
        None \<Rightarrow> None
      | Some body \<Rightarrow>
          (let parts = map trim (splitComma body)
           in if length parts < 3 then None
              else (case (finiteNumber (parts ! 0), finiteNumber (parts ! 1), finiteNumber (parts ! 2),
                          if length parts > 3 then finiteNumber (parts ! 3) else Some 1) of
                      (Some r, Some g, Some b, Some a) \<Rightarrow>
                        Some \<lparr>rgba_r = real_of_int (mathRound (clamp r 0 255)),
                              rgba_g = real_of_int (mathRound (clamp g 0 255)),
                              rgba_b = real_of_int (mathRound (clamp b 0 255)),
                              rgba_a = clamp a 0 1\<rparr>
                    | _ \<Rightarrow> None)))"

definition parseColor :: "ColorCache \<Rightarrow> string \<Rightarrow> RgbaColor option \<times> ColorCache" where
  "parseColor colorCache v =
     (let trimmed = trim v
      in case colorCache trimmed of
           Some cached \<Rightarrow> (Some cached, colorCache)
         | None \<Rightarrow>
             (let parsed = (if startsWith trimmed ''#'' then parseHexColor trimmed
                            else parseRgbColor trimmed)
              in case parsed of
                   Some p \<Rightarrow> (parsed, colorCache(trimmed \<mapsto> p))
                 | None \<Rightarrow> (parsed, colorCache)))"

definition mixColors :: "ColorCache \<Rightarrow> string \<Rightarrow> string \<Rightarrow> real \<Rightarrow> CssColor option \<times> ColorCache" where
  "mixColors colorCache from to amount =
     (case parseColor colorCache from of (fromColor, cache1) \<Rightarrow>
      case parseColor cache1 to of (toColor, cache2) \<Rightarrow>
        (case (fromColor, toColor) of
           (Some fc, Some tc) \<Rightarrow>
             (let t = clamp amount 0 1;
                  r = mathRound (rgba_r fc + (rgba_r tc - rgba_r fc) * t);
                  g = mathRound (rgba_g fc + (rgba_g tc - rgba_g fc) * t);
                  b = mathRound (rgba_b fc + (rgba_b tc - rgba_b fc) * t);
                  a = real_of_int (mathRound ((rgba_a fc + (rgba_a tc - rgba_a fc) * t) * 1000)) / 1000
              in (Some (RgbaString r g b a), cache2))
         | _ \<Rightarrow> (None, cache2)))"

definition resolveColor :: "string list \<Rightarrow> ColorRef \<Rightarrow> string \<Rightarrow> string" where
  "resolveColor colors ref fallback =
     (if ref \<ge> 0 \<and> ref < int (length colors) then colors ! nat ref else fallback)"

section \<open>Renderer (\<open>player/renderer.ts\<close>)\<close>

subsection \<open>Helpers for the operators of the source\<close>

text \<open>\<open>a ?? b\<close>.\<close>

definition nullishOr :: "'a option \<Rightarrow> 'a \<Rightarrow> 'a" where
  "nullishOr a b = (case a of None \<Rightarrow> b | Some v \<Rightarrow> v)"

text \<open>\<open>group?.animationOverrides?.field\<close>.\<close>

definition groupOverride ::
  "(DotPlayerGroupAnimationOverrides \<Rightarrow> real option) \<Rightarrow> DotPlayerGroup option \<Rightarrow> real option" where
  "groupOverride field grp =
     (case grp of
        None \<Rightarrow> None
      | Some g \<Rightarrow> (case group_animationOverrides g of None \<Rightarrow> None | Some ov \<Rightarrow> field ov))"

text \<open>
  The fade-out divisor of a connection may be zero (a group override is not
  clamped), so that one division keeps the results JavaScript gives for a zero
  divisor, and \<open>clamp\<close> on them.
\<close>

datatype JsQuotient = Finite real | PlusInfinity | MinusInfinity | NotANumber

definition jsDivide :: "real \<Rightarrow> real \<Rightarrow> JsQuotient" where
  "jsDivide a b =
     (if b \<noteq> 0 then Finite (a / b)
      else if a > 0 then PlusInfinity
      else if a < 0 then MinusInfinity
      else NotANumber)"

definition clampQuotient :: "JsQuotient \<Rightarrow> real \<Rightarrow> real \<Rightarrow> real option" where
  "clampQuotient q lo hi =
     (case q of
        Finite v \<Rightarrow> Some (clamp v lo hi)
      | PlusInfinity \<Rightarrow> Some hi
      | MinusInfinity \<Rightarrow> Some (min hi lo)
      | NotANumber \<Rightarrow> None)"

text \<open>\<open>frames[i]\<close>: \<open>undefined\<close> outside the array.\<close>

definition frameAt :: "DotPlayerFrame list \<Rightarrow> int \<Rightarrow> DotPlayerFrame option" where
  "frameAt frames i = (if 0 \<le> i \<and> i < int (length frames) then Some (frames ! nat i) else None)"

subsection \<open>Group lookup\<close>

definition buildDotToGroupMap :: "DotPlayerGroup list \<Rightarrow> (string \<rightharpoonup> DotPlayerGroup)" where
  "buildDotToGroupMap groups =
     foldl (\<lambda>m group.
              if \<not> group_visible group then m
              else foldl (\<lambda>m' dotId. m'(dotId \<mapsto> group)) m (group_dotIds group))
       Map.empty groups"

definition buildConnectionToGroupMap :: "DotPlayerGroup list \<Rightarrow> (string \<rightharpoonup> DotPlayerGroup)" where
  "buildConnectionToGroupMap groups =
     foldl (\<lambda>m group.
              if \<not> group_visible group then m
              else foldl (\<lambda>m' connId. m'(connId \<mapsto> group)) m (group_connectionIds group))
       Map.empty groups"

subsection \<open>Grid\<close>

definition renderGrid :: "RenderContext \<Rightarrow> DrawOp list" where
  "renderGrid context =
     SetFillStyle (ColorString (ctx_gridColor context)) #
     concat (map (\<lambda>x. map (\<lambda>y.
                     FillRect (real_of_int x * ctx_dotGap context - ctx_gridDotSize context / 2)
                              (real_of_int y * ctx_dotGap context - ctx_gridDotSize context / 2)
                              (ctx_gridDotSize context) (ctx_gridDotSize context))
                   [0 .. ctx_gridSize context - 1])
              [0 .. ctx_gridSize context - 1])"

subsection \<open>Connections that were there in the previous frame\<close>

definition renderExistingConnection ::
  "RenderContext \<Rightarrow> DotPlayerFrame \<Rightarrow> (string \<rightharpoonup> DotPlayerDot) \<Rightarrow> ConnectionKey set \<Rightarrow>
   ConnectionKey set \<Rightarrow> real \<Rightarrow> real \<Rightarrow> (string \<rightharpoonup> DotPlayerGroup) \<Rightarrow> DotPlayerConnection \<Rightarrow>
   DrawOp list" where
  "renderExistingConnection context frame dotById prevConnectionKeys nextConnectionKeys easedTime
       fadeOutDefault connectionToGroup connection =
     (case (dotById (conn_from connection), dotById (conn_to connection)) of
        (Some from, Some to) \<Rightarrow>
          (let key = deriveConnectionKey from to;
               isNew = (key \<notin> prevConnectionKeys)
           in if isNew then []
              else
                (let group = connectionToGroup (conn_id connection);
                     groupFadeOut = groupOverride ov_fadeOutDuration group;
                     effectiveFadeOut = nullishOr groupFadeOut fadeOutDefault;
                     isLeaving = (key \<notin> nextConnectionKeys);
                     fadeOut = (if isLeaving
                                then clampQuotient
                                       (jsDivide (frame_duration frame - easedTime) effectiveFadeOut) 0 1
                                else Some 1)
                 in [Save,
                     SetGlobalAlpha fadeOut,
                     SetStrokeStyle (ColorString (resolveColor (ctx_colors context)
                                        (conn_color connection) DEFAULT_CONNECTION_COLOR)),
                     SetLineCap ''round'',
                     BeginPath,
                     MoveTo (real_of_int (dot_x from) * ctx_dotGap context)
                            (real_of_int (dot_y from) * ctx_dotGap context),
                     LineTo (real_of_int (dot_x to) * ctx_dotGap context)
                            (real_of_int (dot_y to) * ctx_dotGap context),
                     Stroke,
                     Restore]))
      | _ \<Rightarrow> [])"

definition renderExistingConnections ::
  "RenderContext \<Rightarrow> DotPlayerFrame \<Rightarrow> (string \<rightharpoonup> DotPlayerDot) \<Rightarrow> ConnectionKey set \<Rightarrow>
   ConnectionKey set \<Rightarrow> real \<Rightarrow> real \<Rightarrow> (string \<rightharpoonup> DotPlayerGroup) \<Rightarrow> DrawOp list" where
  "renderExistingConnections context frame dotById prevConnectionKeys nextConnectionKeys easedTime
       fadeOutDefault connectionToGroup =
     concat (map (renderExistingConnection context frame dotById prevConnectionKeys
                    nextConnectionKeys easedTime fadeOutDefault connectionToGroup)
               (frame_connections frame))"

subsection \<open>Connections that are new in this frame\<close>

text \<open>\<open>segment.length || 1\<close>.\<close>

definition lengthOrOne :: "ConnectionSegment \<Rightarrow> real" where
  "lengthOrOne segment = (if seg_length segment = 0 then 1 else seg_length segment)"

text \<open>
  One turn of the loop over the segments of a path; the state is the calls made
  so far and \<open>accumulated\<close>.
\<close>

definition renderSegment ::
  "RenderContext \<Rightarrow> DotPlayerFrame \<Rightarrow> ConnectionKey set \<Rightarrow> real \<Rightarrow> real \<Rightarrow>
   (string \<rightharpoonup> DotPlayerGroup) \<Rightarrow> real \<Rightarrow> real \<Rightarrow> real \<Rightarrow> DrawOp list \<times> real \<Rightarrow>
   ConnectionSegment \<Rightarrow> DrawOp list \<times> real" where
  "renderSegment context frame nextConnectionKeys easedTime fadeOutDefault connectionToGroup
       pathDuration totalLength elapsed st segment =
     (case st of (ops, accumulated) \<Rightarrow>
        (let segmentDuration = pathDuration * (lengthOrOne segment / totalLength);
             local = elapsed - accumulated;
             accumulated' = accumulated + segmentDuration
         in if local \<le> 0 then (ops, accumulated')
            else
              (let segmentGroup = connectionToGroup (conn_id (seg_connection segment));
                   groupFadeOut = groupOverride ov_fadeOutDuration segmentGroup;
                   effectiveFadeOut = nullishOr groupFadeOut fadeOutDefault;
                   progress = clamp (local / max segmentDuration 1) 0 1;
                   isLeaving = (seg_key segment \<notin> nextConnectionKeys);
                   fadeOut = (if isLeaving
                              then clampQuotient
                                     (jsDivide (frame_duration frame - easedTime) effectiveFadeOut) 0 1
                              else Some 1);
                   x1 = real_of_int (dot_x (seg_from segment)) * ctx_dotGap context;
                   y1 = real_of_int (dot_y (seg_from segment)) * ctx_dotGap context;
                   x2 = real_of_int (dot_x (seg_to segment)) * ctx_dotGap context;
                   y2 = real_of_int (dot_y (seg_to segment)) * ctx_dotGap context;
                   x = x1 + (x2 - x1) * progress;
                   y = y1 + (y2 - y1) * progress;
                   color = ColorString (resolveColor (ctx_colors context)
                             (conn_color (seg_connection segment)) DEFAULT_CONNECTION_COLOR)
               in (ops @
                   [Save, SetGlobalAlpha fadeOut, SetStrokeStyle color, SetLineCap ''round'',
                    BeginPath, MoveTo x1 y1, LineTo x y, Stroke] @
                   (if progress < 1
                    then [SetFillStyle (ColorString (ctx_penTipColor context)),
                          SetShadowColor color,
                          SetShadowBlur (ctx_penTipShadowBlur context),
                          BeginPath,
                          Arc x y (ctx_dotRadius context + ctx_penTipRadiusOffset context) 0 (pi * 2),
                          Fill]
                    else []) @
                   [Restore],
                   accumulated'))))"

text \<open>
  One turn of the loop over the paths; the state is the calls made so far and
  \<open>pathIndex\<close>.
\<close>

definition renderPath ::
  "RenderContext \<Rightarrow> DotPlayerFrame \<Rightarrow> ConnectionKey set \<Rightarrow> real \<Rightarrow> real \<Rightarrow>
   (string \<rightharpoonup> DotPlayerGroup) \<Rightarrow> DrawOp list \<times> nat \<Rightarrow> ConnectionSegment list \<Rightarrow>
   DrawOp list \<times> nat" where
  "renderPath context frame nextConnectionKeys easedTime fadeOutDefault connectionToGroup st path =
     (case st of (ops, pathIndex) \<Rightarrow>
        if path = [] then (ops, pathIndex)
        else
          (let firstConnection = seg_connection (hd path);
               group = connectionToGroup (conn_id firstConnection);
               groupDuration = groupOverride ov_connectionAnimationDuration group;
               groupStagger = groupOverride ov_connectionStagger group;
               override = find (\<lambda>segment. conn_revealDuration (seg_connection segment) \<noteq> None) path;
               pathDuration =
                 max (nullishOr
                        (case override of
                           None \<Rightarrow> None
                         | Some segment \<Rightarrow> conn_revealDuration (seg_connection segment))
                        (nullishOr groupDuration (frame_connectionAnimationDuration frame)))
                     1;
               effectiveStagger = nullishOr groupStagger (frame_connectionStagger frame);
               totalLength = foldl (\<lambda>sum segment. sum + lengthOrOne segment) 0 path;
               pathStart = real pathIndex * effectiveStagger;
               elapsed = easedTime - pathStart
           in if elapsed \<le> 0 then (ops, pathIndex + 1)
              else (fst (foldl (renderSegment context frame nextConnectionKeys easedTime
                                  fadeOutDefault connectionToGroup pathDuration totalLength elapsed)
                           (ops, 0) path),
                    pathIndex + 1)))"

definition renderAnimatingConnections ::
  "RenderContext \<Rightarrow> DotPlayerFrame \<Rightarrow> (string \<rightharpoonup> DotPlayerDot) \<Rightarrow> ConnectionKey set \<Rightarrow>
   ConnectionKey set \<Rightarrow> real \<Rightarrow> real \<Rightarrow> (string \<rightharpoonup> DotPlayerGroup) \<Rightarrow> DrawOp list" where
  "renderAnimatingConnections context frame dotById prevConnectionKeys nextConnectionKeys easedTime
       fadeOutDefault connectionToGroup =
     (let newConnections =
            filter (\<lambda>connection.
                      case (dotById (conn_from connection), dotById (conn_to connection)) of
                        (Some from, Some to) \<Rightarrow> deriveConnectionKey from to \<notin> prevConnectionKeys
                      | _ \<Rightarrow> False)
              (frame_connections frame);
          connectionPaths = buildConnectionPaths newConnections dotById
      in fst (foldl (renderPath context frame nextConnectionKeys easedTime fadeOutDefault
                       connectionToGroup)
                ([], 0) connectionPaths))"

subsection \<open>Auto-connections\<close>

text \<open>
  \<open>stayEnd\<close> and \<open>traceOutEnd\<close> are numbers or \<open>Infinity\<close>; the elapsed time is always a
  number.
\<close>

datatype ExtendedNumber = Number real | Infinity

definition extendedPlus :: "ExtendedNumber \<Rightarrow> real \<Rightarrow> ExtendedNumber" where
  "extendedPlus a b = (case a of Number v \<Rightarrow> Number (v + b) | Infinity \<Rightarrow> Infinity)"

definition lessThanExtended :: "real \<Rightarrow> ExtendedNumber \<Rightarrow> bool" where
  "lessThanExtended a b = (case b of Number v \<Rightarrow> a < v | Infinity \<Rightarrow> True)"

text \<open>
  The phase of one auto-connection at \<open>cumulativeTime\<close>: the part
  \<open>(progressStart, progressEnd)\<close> of the route to draw and \<open>isTracing\<close>, or \<open>None\<close>
  where the loop goes on to the next auto-connection without drawing (the three
  \<open>continue\<close>s before the call of \<open>findPath\<close>). After the stay phase \<open>stayEnd\<close> is a
  number, since an infinite \<open>stayEnd\<close> keeps every elapsed time in the stay phase.
\<close>

definition autoConnectionProgress :: "AutoConnection \<Rightarrow> real \<Rightarrow> (real \<times> real \<times> bool) option" where
  "autoConnectionProgress autoConn cumulativeTime =
     (let elapsed = cumulativeTime - ac_startTime autoConn
      in if elapsed < 0 then None
         else
           (let traceInEnd = ac_traceInDuration autoConn;
                stayEnd = (case ac_stayDuration autoConn of
                             None \<Rightarrow> Infinity
                           | Some stay \<Rightarrow> Number (traceInEnd + stay));
                traceOutEnd = (case ac_traceOutDuration autoConn of
                                 Some out \<Rightarrow> extendedPlus stayEnd out
                               | None \<Rightarrow> Infinity);
                phase =
                  (if elapsed < traceInEnd
                   then (let traceInProgress = clamp (elapsed / ac_traceInDuration autoConn) 0 1
                         in if ac_traceInReverse autoConn
                            then Some (1 - traceInProgress, 1, True)
                            else Some (0, traceInProgress, True))
                   else if lessThanExtended elapsed stayEnd then Some (0, 1, False)
                   else
                     (case (ac_traceOutDuration autoConn, stayEnd) of
                        (Some out, Number stayEndValue) \<Rightarrow>
                          if lessThanExtended elapsed traceOutEnd
                          then (let traceOutProgress = clamp ((elapsed - stayEndValue) / out) 0 1
                                in if ac_traceOutReverse autoConn
                                   then Some (0, 1 - traceOutProgress, True)
                                   else Some (traceOutProgress, 1, True))
                          else None
                      | (Some out, Infinity) \<Rightarrow> None
                      | (None, _) \<Rightarrow> Some (0, 1, False)))
            in case phase of
                 None \<Rightarrow> None
               | Some (progressStart, progressEnd, isTracing) \<Rightarrow>
                   if progressEnd \<le> progressStart then None
                   else Some (progressStart, progressEnd, isTracing)))"

text \<open>
  The loop over the segments of the route. The state is what the loop assigns:
  the calls so far, the pen tip, \<open>showPenTip\<close>, \<open>accumulatedLength\<close> and
  \<open>pathStarted\<close>. \<open>traceSegment\<close> is one turn of the loop, for the segment from
  \<open>path[i - 1]\<close> to \<open>path[i]\<close>; its second result is \<open>False\<close> at the \<open>break\<close>.
\<close>

record TraceState =
  trace_ops :: "DrawOp list"
  trace_penTipX :: real
  trace_penTipY :: real
  trace_showPenTip :: bool
  trace_accumulatedLength :: real
  trace_pathStarted :: bool

definition traceSegment ::
  "real \<Rightarrow> real \<Rightarrow> real \<Rightarrow> real \<Rightarrow> GridPosition \<Rightarrow> GridPosition \<Rightarrow> TraceState \<Rightarrow>
   TraceState \<times> bool" where
  "traceSegment dotGap totalLength startLength endLength p0 p1 st =
     (let ddx = real_of_int (fst p1 - fst p0);
          ddy = real_of_int (snd p1 - snd p0);
          segmentLength = sqrt (ddx * ddx + ddy * ddy);
          segmentStart = trace_accumulatedLength st;
          segmentEnd = trace_accumulatedLength st + segmentLength
      in if segmentEnd \<le> startLength
         then (st\<lparr>trace_accumulatedLength := segmentEnd\<rparr>, True)
         else if segmentStart \<ge> endLength then (st, False)
         else
           (let visibleStart = max segmentStart startLength;
                visibleEnd = min segmentEnd endLength;
                tStart = (visibleStart - segmentStart) / segmentLength;
                tEnd = (visibleEnd - segmentStart) / segmentLength;
                x0 = real_of_int (fst p0) + real_of_int (fst p1 - fst p0) * tStart;
                y0 = real_of_int (snd p0) + real_of_int (snd p1 - snd p0) * tStart;
                x1 = real_of_int (fst p0) + real_of_int (fst p1 - fst p0) * tEnd;
                y1 = real_of_int (snd p0) + real_of_int (snd p1 - snd p0) * tEnd
            in (st\<lparr>trace_ops :=
                      trace_ops st @
                      (if \<not> trace_pathStarted st then [MoveTo (x0 * dotGap) (y0 * dotGap)] else []) @
                      [LineTo (x1 * dotGap) (y1 * dotGap)],
                    trace_pathStarted := True,
                    trace_penTipX := x1 * dotGap,
                    trace_penTipY := y1 * dotGap,
                    trace_showPenTip := (trace_showPenTip st \<or> visibleEnd < totalLength),
                    trace_accumulatedLength := segmentEnd\<rparr>,
                True)))"

fun traceSegments ::
  "real \<Rightarrow> real \<Rightarrow> real \<Rightarrow> real \<Rightarrow> GridPosition list \<Rightarrow> TraceState \<Rightarrow> TraceState" where
  "traceSegments dotGap totalLength startLength endLength (p0 # p1 # rest) st =
     (case traceSegment dotGap totalLength startLength endLength p0 p1 st of
        (st', goOn) \<Rightarrow>
          if goOn then traceSegments dotGap totalLength startLength endLength (p1 # rest) st'
          else st')"
| "traceSegments dotGap totalLength startLength endLength path st = st"

definition drawAutoConnection ::
  "RenderContext \<Rightarrow> AutoConnection \<Rightarrow> GridPosition list \<Rightarrow> real \<Rightarrow> real \<Rightarrow> bool \<Rightarrow> DrawOp list" where
  "drawAutoConnection context autoConn path progressStart progressEnd isTracing =
     (let totalLength = foldl (+) 0 (segmentLengths path);
          startLength = totalLength * progressStart;
          endLength = totalLength * progressEnd;
          color = ColorString (resolveColor (ctx_colors context) (ac_color autoConn)
                                 DEFAULT_CONNECTION_COLOR);
          st = traceSegments (ctx_dotGap context) totalLength startLength endLength path
                 \<lparr>trace_ops = [], trace_penTipX = 0, trace_penTipY = 0, trace_showPenTip = False,
                  trace_accumulatedLength = 0, trace_pathStarted = False\<rparr>
      in [Save,
          SetStrokeStyle color,
          SetLineWidth (max 1 (ctx_dotRadius context * ctx_connectionStrokeScale context)),
          SetLineCap ''round'',
          BeginPath] @
         trace_ops st @
         [Stroke] @
         (if isTracing \<and> trace_showPenTip st
          then [SetFillStyle (ColorString (ctx_penTipColor context)),
                SetShadowColor color,
                SetShadowBlur (ctx_penTipShadowBlur context),
                BeginPath,
                Arc (trace_penTipX st) (trace_penTipY st)
                    (ctx_dotRadius context + ctx_penTipRadiusOffset context) 0 (pi * 2),
                Fill]
          else []) @
         [Restore])"

text \<open>How a call ends: it returns, it throws, or it never comes back.\<close>

datatype Outcome = Returned | ThrewTypeError | NeverReturns

text \<open>
  One auto-connection: its calls, or \<open>None\<close> when \<open>findPath\<close> does not return.
\<close>

definition renderAutoConnection ::
  "RenderContext \<Rightarrow> PositionKey set \<Rightarrow> real \<Rightarrow> AutoConnection \<Rightarrow> DrawOp list option" where
  "renderAutoConnection context obstacles cumulativeTime autoConn =
     (case autoConnectionProgress autoConn cumulativeTime of
        None \<Rightarrow> Some []
      | Some (progressStart, progressEnd, isTracing) \<Rightarrow>
          (case findPath (ac_fromX autoConn, ac_fromY autoConn) (ac_toX autoConn, ac_toY autoConn)
                  (ctx_gridSize context) obstacles of
             None \<Rightarrow> None
           | Some None \<Rightarrow> Some []
           | Some (Some path) \<Rightarrow>
               if length path < 2 then Some []
               else Some (drawAutoConnection context autoConn path progressStart progressEnd isTracing)))"

fun renderAutoConnectionsLoop ::
  "RenderContext \<Rightarrow> PositionKey set \<Rightarrow> real \<Rightarrow> AutoConnection list \<Rightarrow> DrawOp list \<times> Outcome" where
  "renderAutoConnectionsLoop context obstacles cumulativeTime [] = ([], Returned)"
| "renderAutoConnectionsLoop context obstacles cumulativeTime (autoConn # rest) =
     (case renderAutoConnection context obstacles cumulativeTime autoConn of
        None \<Rightarrow> ([], NeverReturns)
      | Some ops \<Rightarrow>
          (case renderAutoConnectionsLoop context obstacles cumulativeTime rest of
             (ops', outcome) \<Rightarrow> (ops @ ops', outcome)))"

definition renderAutoConnections ::
  "RenderContext \<Rightarrow> DotPlayerFrame \<Rightarrow> AutoConnection list \<Rightarrow> real \<Rightarrow> DrawOp list \<times> Outcome" where
  "renderAutoConnections context frame autoConnections cumulativeTime =
     renderAutoConnectionsLoop context
       (buildObstacleSet (map (\<lambda>dot. (dot_x dot, dot_y dot)) (frame_dots frame)))
       cumulativeTime autoConnections"

subsection \<open>Dots\<close>

text \<open>
  The body of the loop of \<open>renderDots\<close> is split at \<open>if (alpha <= 0) continue\<close>:
  \<open>dotDelay\<close>, \<open>dotFadeIn\<close>, \<open>dotFadeOut\<close> and \<open>dotAlpha\<close> are the values the loop computes before
  that line for the dot at \<open>index\<close>, \<open>renderDot\<close> is the whole turn of the loop.
\<close>

definition dotFadeInDuration ::
  "DotPlayerFrame \<Rightarrow> (string \<rightharpoonup> DotPlayerGroup) \<Rightarrow> DotPlayerDot \<Rightarrow> real" where
  "dotFadeInDuration frame dotToGroup dot =
     (let groupFadeIn = groupOverride ov_fadeInDuration (dotToGroup (dot_id dot))
      in max (nullishOr (dot_fadeInDuration dot)
                (nullishOr groupFadeIn (frame_dotFadeInDuration frame))) 1)"

definition dotFadeOutDuration ::
  "DotPlayerFrame \<Rightarrow> (string \<rightharpoonup> DotPlayerGroup) \<Rightarrow> DotPlayerDot \<Rightarrow> real" where
  "dotFadeOutDuration frame dotToGroup dot =
     (let groupFadeOut = groupOverride ov_fadeOutDuration (dotToGroup (dot_id dot))
      in max (nullishOr (dot_fadeOutDuration dot)
                (nullishOr groupFadeOut (frame_dotFadeOutDuration frame))) 1)"

definition dotDelay :: "PositionKey set \<Rightarrow> real \<Rightarrow> nat \<Rightarrow> DotPlayerDot \<Rightarrow> real" where
  "dotDelay prevDotPositions dotStagger index dot =
     (let key = createPositionKey (dot_x dot) (dot_y dot);
          isNew = (key \<notin> prevDotPositions)
      in if isNew then real index * dotStagger else 0)"

definition dotFadeIn ::
  "DotPlayerFrame \<Rightarrow> PositionKey set \<Rightarrow> real \<Rightarrow> real \<Rightarrow> (string \<rightharpoonup> DotPlayerGroup) \<Rightarrow>
   nat \<Rightarrow> DotPlayerDot \<Rightarrow> real" where
  "dotFadeIn frame prevDotPositions easedTime dotStagger dotToGroup index dot =
     (let key = createPositionKey (dot_x dot) (dot_y dot);
          isNew = (key \<notin> prevDotPositions);
          fadeInDuration = dotFadeInDuration frame dotToGroup dot;
          delay = dotDelay prevDotPositions dotStagger index dot;
          local = easedTime - delay
      in if isNew then clamp (local / fadeInDuration) 0 1 else 1)"

definition dotFadeOut ::
  "DotPlayerFrame \<Rightarrow> PositionKey set \<Rightarrow> real \<Rightarrow> (string \<rightharpoonup> DotPlayerGroup) \<Rightarrow>
   DotPlayerDot \<Rightarrow> real" where
  "dotFadeOut frame nextDotPositions easedTime dotToGroup dot =
     (let key = createPositionKey (dot_x dot) (dot_y dot);
          isLeaving = (key \<notin> nextDotPositions);
          fadeOutDuration = dotFadeOutDuration frame dotToGroup dot
      in if isLeaving then clamp ((frame_duration frame - easedTime) / fadeOutDuration) 0 1 else 1)"

definition dotAlpha ::
  "DotPlayerFrame \<Rightarrow> PositionKey set \<Rightarrow> PositionKey set \<Rightarrow> real \<Rightarrow> real \<Rightarrow>
   (string \<rightharpoonup> DotPlayerGroup) \<Rightarrow> nat \<Rightarrow> DotPlayerDot \<Rightarrow> real" where
  "dotAlpha frame prevDotPositions nextDotPositions easedTime dotStagger dotToGroup index dot =
     min (dotFadeIn frame prevDotPositions easedTime dotStagger dotToGroup index dot)
         (dotFadeOut frame nextDotPositions easedTime dotToGroup dot)"

definition renderDot ::
  "RenderContext \<Rightarrow> DotPlayerFrame \<Rightarrow> PositionKey set \<Rightarrow> PositionKey set \<Rightarrow>
   (PositionKey \<rightharpoonup> ColorRef) \<Rightarrow> real \<Rightarrow> real \<Rightarrow> real \<Rightarrow> real \<Rightarrow> (string \<rightharpoonup> DotPlayerGroup) \<Rightarrow>
   ColorCache \<Rightarrow> nat \<Rightarrow> DotPlayerDot \<Rightarrow> DrawOp list \<times> ColorCache" where
  "renderDot context frame prevDotPositions nextDotPositions prevDotColors easedTime dotStagger
       fadeOutDefault colorTransitionProgress dotToGroup colorCache index dot =
     (let key = createPositionKey (dot_x dot) (dot_y dot);
          isNew = (key \<notin> prevDotPositions);
          alpha = dotAlpha frame prevDotPositions nextDotPositions easedTime dotStagger dotToGroup
                    index dot
      in if alpha \<le> 0 then ([], colorCache)
         else
           (let scale = 0.6 + 0.4 * alpha;
                currentColor = resolveColor (ctx_colors context) (dot_color dot) DEFAULT_DOT_COLOR;
                blend =
                  (if \<not> isNew
                   then (case prevDotColors key of
                           None \<Rightarrow> (None, colorCache)
                         | Some prevColorRef \<Rightarrow>
                             if prevColorRef \<noteq> dot_color dot
                             then mixColors colorCache
                                    (resolveColor (ctx_colors context) prevColorRef DEFAULT_DOT_COLOR)
                                    currentColor colorTransitionProgress
                             else (None, colorCache))
                   else (None, colorCache));
                fillColor = (case fst blend of
                               None \<Rightarrow> ColorString currentColor
                             | Some blended \<Rightarrow> blended)
            in ([Save,
                 SetGlobalAlpha (Some alpha),
                 SetFillStyle fillColor,
                 BeginPath,
                 Arc (real_of_int (dot_x dot) * ctx_dotGap context)
                     (real_of_int (dot_y dot) * ctx_dotGap context)
                     (ctx_dotRadius context * scale) 0 (pi * 2),
                 Fill,
                 Restore],
                snd blend)))"

fun renderDotsFrom ::
  "RenderContext \<Rightarrow> DotPlayerFrame \<Rightarrow> PositionKey set \<Rightarrow> PositionKey set \<Rightarrow>
   (PositionKey \<rightharpoonup> ColorRef) \<Rightarrow> real \<Rightarrow> real \<Rightarrow> real \<Rightarrow> real \<Rightarrow> (string \<rightharpoonup> DotPlayerGroup) \<Rightarrow>
   ColorCache \<Rightarrow> nat \<Rightarrow> DotPlayerDot list \<Rightarrow> DrawOp list \<times> ColorCache" where
  "renderDotsFrom context frame prevDotPositions nextDotPositions prevDotColors easedTime dotStagger
       fadeOutDefault colorTransitionProgress dotToGroup colorCache index [] = ([], colorCache)"
| "renderDotsFrom context frame prevDotPositions nextDotPositions prevDotColors easedTime dotStagger
       fadeOutDefault colorTransitionProgress dotToGroup colorCache index (dot # rest) =
     (case renderDot context frame prevDotPositions nextDotPositions prevDotColors easedTime
             dotStagger fadeOutDefault colorTransitionProgress dotToGroup colorCache index dot of
        (ops, cache1) \<Rightarrow>
          (case renderDotsFrom context frame prevDotPositions nextDotPositions prevDotColors
                  easedTime dotStagger fadeOutDefault colorTransitionProgress dotToGroup cache1
                  (Suc index) rest of
             (ops', cache2) \<Rightarrow> (ops @ ops', cache2)))"

definition renderDots ::
  "RenderContext \<Rightarrow> DotPlayerFrame \<Rightarrow> PositionKey set \<Rightarrow> PositionKey set \<Rightarrow>
   (PositionKey \<rightharpoonup> ColorRef) \<Rightarrow> real \<Rightarrow> real \<Rightarrow> real \<Rightarrow> real \<Rightarrow> (string \<rightharpoonup> DotPlayerGroup) \<Rightarrow>
   ColorCache \<Rightarrow> DrawOp list \<times> ColorCache" where
  "renderDots context frame prevDotPositions nextDotPositions prevDotColors easedTime dotStagger
       fadeOutDefault colorTransitionProgress dotToGroup colorCache =
     renderDotsFrom context frame prevDotPositions nextDotPositions prevDotColors easedTime
       dotStagger fadeOutDefault colorTransitionProgress dotToGroup colorCache 0 (frame_dots frame)"

subsection \<open>\<open>renderFrame\<close>\<close>

text \<open>The values \<open>renderFrame\<close> derives from the frame before it draws.\<close>

definition easedTimeOf :: "DotPlayerFrame \<Rightarrow> real \<Rightarrow> real" where
  "easedTimeOf frame playhead =
     (let baseProgress = (if frame_duration frame > 0
                          then clamp (playhead / frame_duration frame) 0 1 else 0);
          ease = nullishOr (easingFunctions (frame_easing frame)) easeLinear;
          easedProgress = ease baseProgress
      in frame_duration frame * easedProgress)"

definition effectiveDotStagger :: "DotPlayerFrame \<Rightarrow> real" where
  "effectiveDotStagger frame =
     (let dotCount = max (real (length (frame_dots frame))) 1
      in if frame_dotStagger frame = 0 then 0
         else min (frame_dotStagger frame)
                (min (frame_dotFadeInDuration frame / 4)
                     ((frame_duration frame * 0.4) / dotCount)))"

definition colorTransitionProgressOf :: "DotPlayerFrame \<Rightarrow> real \<Rightarrow> real" where
  "colorTransitionProgressOf frame playhead =
     (let colorTransitionDuration =
            max (nullishOr (frame_dotColorTransitionDuration frame) DEFAULT_DOT_COLOR_TRANSITION) 0;
          colorEase =
            nullishOr (easingFunctions (nullishOr (frame_dotColorTransitionEasing frame)
                                          DEFAULT_DOT_COLOR_TRANSITION_EASING))
              easeLinear
      in if colorTransitionDuration \<le> 0 then 1
         else colorEase (clamp (playhead / colorTransitionDuration) 0 1))"

text \<open>
  The clock of the auto-connections: the durations of the frames before
  \<open>frameIndex\<close>, then the playhead. Reading \<open>frames[i].duration\<close> beyond the array
  throws, which is \<open>None\<close>.
\<close>

definition cumulativeTimeOf :: "DotPlayerFrame list \<Rightarrow> int \<Rightarrow> real \<Rightarrow> real option" where
  "cumulativeTimeOf frames frameIndex playhead =
     (if frameIndex > int (length frames) then None
      else Some (foldl (\<lambda>t fr. t + frame_duration fr) 0 (take (nat frameIndex) frames) + playhead))"

definition prevFrameOf :: "FrameRenderState \<Rightarrow> DotPlayerFrame option" where
  "prevFrameOf state =
     (let lastFrameIndex = state_totalFrames state - 1;
          prevFrameIndex = state_frameIndex state - 1
      in if prevFrameIndex \<ge> 0 then frameAt (state_frames state) prevFrameIndex
         else if settings_loopPlayback (state_settings state)
         then frameAt (state_frames state) lastFrameIndex
         else None)"

definition nextFrameOf :: "FrameRenderState \<Rightarrow> DotPlayerFrame option" where
  "nextFrameOf state =
     (let lastFrameIndex = state_totalFrames state - 1;
          nextFrameIndex = state_frameIndex state + 1
      in if nextFrameIndex \<le> lastFrameIndex then frameAt (state_frames state) nextFrameIndex
         else if settings_loopPlayback (state_settings state) then frameAt (state_frames state) 0
         else None)"

definition prevDotPositionsOf :: "FrameRenderState \<Rightarrow> PositionKey set" where
  "prevDotPositionsOf state =
     (let frame = state_frame state;
          frameIndex = state_frameIndex state;
          settings = state_settings state;
          forceStartFadeIn = (frameIndex = 0 \<and> settings_fadeInOnStart settings);
          disableStartFadeIn = (frameIndex = 0 \<and> \<not> settings_fadeInOnStart settings \<and>
                                \<not> settings_loopPlayback settings)
      in if frame_animateDots frame
         then (if forceStartFadeIn then {}
               else if disableStartFadeIn then deriveDotPositionSet (frame_dots frame)
               else (case prevFrameOf state of
                       Some prevFrame \<Rightarrow> deriveDotPositionSet (frame_dots prevFrame)
                     | None \<Rightarrow> {}))
         else deriveDotPositionSet (frame_dots frame))"

definition prevDotColorsOf :: "FrameRenderState \<Rightarrow> (PositionKey \<rightharpoonup> ColorRef)" where
  "prevDotColorsOf state =
     (let frameIndex = state_frameIndex state;
          settings = state_settings state;
          disableStartFadeIn = (frameIndex = 0 \<and> \<not> settings_fadeInOnStart settings \<and>
                                \<not> settings_loopPlayback settings)
      in if disableStartFadeIn then deriveDotColorMap (Some (state_frame state))
         else deriveDotColorMap (prevFrameOf state))"

definition nextDotPositionsOf :: "FrameRenderState \<Rightarrow> PositionKey set" where
  "nextDotPositionsOf state =
     (let frame = state_frame state;
          frameIndex = state_frameIndex state;
          settings = state_settings state;
          lastFrameIndex = state_totalFrames state - 1;
          forceEndFadeOut = (frameIndex = lastFrameIndex \<and> settings_fadeOutOnEnd settings);
          disableEndFadeOut = (frameIndex = lastFrameIndex \<and> \<not> settings_fadeOutOnEnd settings \<and>
                               \<not> settings_loopPlayback settings)
      in if frame_animateDots frame
         then (if forceEndFadeOut then {}
               else if disableEndFadeOut then deriveDotPositionSet (frame_dots frame)
               else (case nextFrameOf state of
                       Some nextFrame \<Rightarrow> deriveDotPositionSet (frame_dots nextFrame)
                     | None \<Rightarrow> {}))
         else deriveDotPositionSet (frame_dots frame))"

definition prevConnectionKeysOf :: "FrameRenderState \<Rightarrow> ConnectionKey set" where
  "prevConnectionKeysOf state =
     (let frame = state_frame state;
          frameIndex = state_frameIndex state;
          settings = state_settings state;
          forceConnectionStartFadeIn =
            (frameIndex = 0 \<and> settings_connectionFadeInOnStart settings);
          disableConnectionStartFadeIn =
            (frameIndex = 0 \<and> \<not> settings_connectionFadeInOnStart settings \<and>
             \<not> settings_loopPlayback settings)
      in if frame_animateConnections frame
         then (if forceConnectionStartFadeIn then {}
               else if disableConnectionStartFadeIn then deriveConnectionKeySet (Some frame)
               else deriveConnectionKeySet (prevFrameOf state))
         else deriveConnectionKeySet (Some frame))"

definition nextConnectionKeysOf :: "FrameRenderState \<Rightarrow> ConnectionKey set" where
  "nextConnectionKeysOf state =
     (let frame = state_frame state;
          frameIndex = state_frameIndex state;
          settings = state_settings state;
          lastFrameIndex = state_totalFrames state - 1;
          forceConnectionEndFadeOut =
            (frameIndex = lastFrameIndex \<and> settings_connectionFadeOutOnEnd settings);
          disableConnectionEndFadeOut =
            (frameIndex = lastFrameIndex \<and> \<not> settings_connectionFadeOutOnEnd settings \<and>
             \<not> settings_loopPlayback settings)
      in if frame_animateConnections frame
         then (if forceConnectionEndFadeOut then {}
               else if disableConnectionEndFadeOut then deriveConnectionKeySet (Some frame)
               else deriveConnectionKeySet (nextFrameOf state))
         else deriveConnectionKeySet (Some frame))"

text \<open>
  \<open>renderFrame\<close>: the calls made on the canvas, the colour cache it leaves behind and
  how the call ended. The calls made before a throw, or before a search that does
  not return, are part of the result. The argument \<open>autoConnections\<close> is optional.
\<close>

definition renderFrame ::
  "ColorCache \<Rightarrow> RenderContext \<Rightarrow> FrameRenderState \<Rightarrow> AutoConnection list option \<Rightarrow>
   DrawOp list \<times> ColorCache \<times> Outcome" where
  "renderFrame colorCache context state autoConnections =
     (let frame = state_frame state;
          playhead = state_playhead state;
          animateConnections = frame_animateConnections frame;
          easedTime = easedTimeOf frame playhead;
          prevDotPositions = prevDotPositionsOf state;
          prevDotColors = prevDotColorsOf state;
          nextDotPositions = nextDotPositionsOf state;
          prevConnectionKeys = prevConnectionKeysOf state;
          nextConnectionKeys = nextConnectionKeysOf state;
          dotById = deriveDotMap (frame_dots frame);
          dotToGroup = buildDotToGroupMap (frame_groups frame);
          connectionToGroup = buildConnectionToGroupMap (frame_groups frame);
          dotStagger = effectiveDotStagger frame;
          fadeOutDefault = max (frame_dotFadeOutDuration frame) 1;
          colorTransitionProgress = colorTransitionProgressOf frame playhead;
          opsBefore =
            [ClearRect 0 0 (ctx_canvasSize context) (ctx_canvasSize context),
             Save,
             Translate (ctx_gridOffset context) (ctx_gridOffset context)] @
            (if ctx_showGrid context then renderGrid context else []) @
            [SetLineWidth (max 1 (ctx_dotRadius context * ctx_connectionStrokeScale context))] @
            renderExistingConnections context frame dotById prevConnectionKeys nextConnectionKeys
              easedTime fadeOutDefault connectionToGroup @
            (if animateConnections
             then renderAnimatingConnections context frame dotById prevConnectionKeys
                    nextConnectionKeys easedTime fadeOutDefault connectionToGroup
             else []);
          auto =
            (case autoConnections of
               None \<Rightarrow> ([], Returned)
             | Some acs \<Rightarrow>
                 if length acs > 0
                 then (case cumulativeTimeOf (state_frames state) (state_frameIndex state) playhead of
                         None \<Rightarrow> ([], ThrewTypeError)
                       | Some cumulativeTime \<Rightarrow>
                           renderAutoConnections context frame acs cumulativeTime)
                 else ([], Returned))
      in if snd auto \<noteq> Returned then (opsBefore @ fst auto, colorCache, snd auto)
         else
           (case renderDots context frame prevDotPositions nextDotPositions prevDotColors easedTime
                   dotStagger fadeOutDefault colorTransitionProgress dotToGroup colorCache of
              (dotOps, colorCache') \<Rightarrow>
                (opsBefore @ fst auto @ dotOps @ [Restore], colorCache', Returned)))"

section \<open>Vocabulary of the properties\<close>

subsection \<open>Pathfinder\<close>

text \<open>
  A step from \<open>a\<close> to \<open>b\<close> cuts a corner when it is diagonal and one of the two cells
  that touch both \<open>a\<close> and \<open>b\<close> is an obstacle.
\<close>

definition cutsCorner :: "PositionKey set \<Rightarrow> GridPosition \<Rightarrow> GridPosition \<Rightarrow> bool" where
  "cutsCorner workingObstacles a b =
     (fst b \<noteq> fst a \<and> snd b \<noteq> snd a \<and>
      (createPositionKey (fst b) (snd a) \<in> workingObstacles \<or>
       createPositionKey (fst a) (snd b) \<in> workingObstacles))"

text \<open>No link of the parent chain of a node cuts a corner.\<close>

fun chainOk :: "PositionKey set \<Rightarrow> PathNode \<Rightarrow> bool" where
  "chainOk wo (PathNode x y g h f None) = True"
| "chainOk wo (PathNode x y g h f (Some p)) =
     (\<not> cutsCorner wo (node_x p, node_y p) (x, y) \<and> chainOk wo p)"

text \<open>The cost of a path: 1 for a step along an axis, \<open>\<surd>2\<close> for a diagonal step.\<close>

definition stepCost :: "GridPosition \<Rightarrow> GridPosition \<Rightarrow> real" where
  "stepCost a b = (if fst a \<noteq> fst b \<and> snd a \<noteq> snd b then SQRT2 else 1)"

fun pathCost :: "GridPosition list \<Rightarrow> real" where
  "pathCost (a # b # rest) = stepCost a b + pathCost (b # rest)"
| "pathCost path = 0"

text \<open>
  On the empty grid the search from \<open>(0, 0)\<close> to \<open>(n, n)\<close> walks down the diagonal.
  \<open>diagNode n k\<close> is the node the search holds for the cell \<open>(k, k)\<close>, \<open>offPath\<close> holds of
  every other open node, and \<open>diagInv\<close> is the state of the loop when \<open>(k, k)\<close> is
  about to be expanded.
\<close>

fun diagNode :: "int \<Rightarrow> nat \<Rightarrow> PathNode" where
  "diagNode n 0 = PathNode 0 0 0 (octileDistance 0 0 n n) (octileDistance 0 0 n n) None"
| "diagNode n (Suc k) =
     PathNode (node_x (diagNode n k) + 1) (node_y (diagNode n k) + 1)
       (node_g (diagNode n k) + SQRT2)
       (octileDistance (node_x (diagNode n k) + 1) (node_y (diagNode n k) + 1) n n)
       (node_g (diagNode n k) + SQRT2 +
        octileDistance (node_x (diagNode n k) + 1) (node_y (diagNode n k) + 1) n n)
       (Some (diagNode n k))"

definition offPath :: "int \<Rightarrow> PathNode \<Rightarrow> bool" where
  "offPath n m = (node_x m \<noteq> node_y m \<and> node_f m > real_of_int n * sqrt 2)"

definition nodePos :: "PathNode \<Rightarrow> int \<times> int" where
  "nodePos m = (node_x m, node_y m)"

definition diagInv :: "int \<Rightarrow> nat \<Rightarrow> PathNode list \<Rightarrow> PositionKey set \<Rightarrow> bool" where
  "diagInv n k openSet closedSet =
     (int k \<le> n \<and> distinct (map nodePos openSet) \<and> diagNode n k \<in> set openSet \<and>
      (\<forall>m \<in> set openSet. m = diagNode n k \<or> offPath n m) \<and>
      (0 < k \<longrightarrow> (int k - 1, int k - 1) \<in> closedSet) \<and>
      (\<forall>j \<ge> int k. (j, j) \<notin> closedSet))"

subsection \<open>Renderer\<close>

text \<open>
  The part of the route an auto-connection shows at a time: the width of the window
  \<open>[progressStart, progressEnd]\<close>, and 0 where the loop draws nothing.
\<close>

definition drawnFraction :: "AutoConnection \<Rightarrow> real \<Rightarrow> real" where
  "drawnFraction autoConn cumulativeTime =
     (case autoConnectionProgress autoConn cumulativeTime of
        None \<Rightarrow> 0
      | Some (progressStart, progressEnd, isTracing) \<Rightarrow> progressEnd - progressStart)"

text \<open>
  The divisors of the divisions by a duration, each with the guard under which the
  source reaches the division: \<open>playhead / frame.duration\<close>,
  \<open>playhead / colorTransitionDuration\<close>, \<open>elapsed / autoConn.traceInDuration\<close>,
  \<open>(elapsed - stayEnd) / autoConn.traceOutDuration\<close>,
  \<open>local / Math.max(segmentDuration, 1)\<close> and
  \<open>(frame.duration - easedTime) / effectiveFadeOut\<close>. \<open>None\<close> means that the division
  is not reached.
\<close>

definition frameProgressDivisor :: "DotPlayerFrame \<Rightarrow> real option" where
  "frameProgressDivisor frame =
     (if frame_duration frame > 0 then Some (frame_duration frame) else None)"

definition colorTransitionDivisor :: "DotPlayerFrame \<Rightarrow> real option" where
  "colorTransitionDivisor frame =
     (let colorTransitionDuration =
            max (nullishOr (frame_dotColorTransitionDuration frame) DEFAULT_DOT_COLOR_TRANSITION) 0
      in if colorTransitionDuration \<le> 0 then None else Some colorTransitionDuration)"

definition traceInDivisor :: "AutoConnection \<Rightarrow> real \<Rightarrow> real option" where
  "traceInDivisor autoConn cumulativeTime =
     (let elapsed = cumulativeTime - ac_startTime autoConn
      in if elapsed < 0 then None
         else if elapsed < ac_traceInDuration autoConn then Some (ac_traceInDuration autoConn)
         else None)"

definition traceOutDivisor :: "AutoConnection \<Rightarrow> real \<Rightarrow> real option" where
  "traceOutDivisor autoConn cumulativeTime =
     (let elapsed = cumulativeTime - ac_startTime autoConn
      in if elapsed < 0 then None
         else if elapsed < ac_traceInDuration autoConn then None
         else (case (ac_stayDuration autoConn, ac_traceOutDuration autoConn) of
                 (Some stay, Some out) \<Rightarrow>
                   if elapsed < ac_traceInDuration autoConn + stay then None
                   else if elapsed < ac_traceInDuration autoConn + stay + out then Some out
                   else None
               | _ \<Rightarrow> None))"

definition segmentProgressDivisor :: "real \<Rightarrow> real \<Rightarrow> ConnectionSegment \<Rightarrow> real" where
  "segmentProgressDivisor pathDuration totalLength segment =
     max (pathDuration * (lengthOrOne segment / totalLength)) 1"

definition connectionFadeOutDivisor :: "real \<Rightarrow> DotPlayerGroup option \<Rightarrow> real" where
  "connectionFadeOutDivisor fadeOutDefault grp =
     nullishOr (groupOverride ov_fadeOutDuration grp) fadeOutDefault"

text \<open>A small scene for the examples: two dots, one connection, one auto-connection.\<close>

definition exampleDotA :: DotPlayerDot where
  "exampleDotA = \<lparr>dot_id = ''A'', dot_x = 0, dot_y = 0, dot_color = 1,
                   dot_fadeInDuration = None, dot_fadeOutDuration = None\<rparr>"

definition exampleDotB :: DotPlayerDot where
  "exampleDotB = \<lparr>dot_id = ''B'', dot_x = 1, dot_y = 0, dot_color = 1,
                   dot_fadeInDuration = None, dot_fadeOutDuration = None\<rparr>"

definition exampleConnection :: DotPlayerConnection where
  "exampleConnection = \<lparr>conn_id = ''AB'', conn_from = ''A'', conn_to = ''B'', conn_color = 2,
                         conn_order = 0, conn_revealDuration = None\<rparr>"

definition exampleFrame :: DotPlayerFrame where
  "exampleFrame =
     \<lparr>frame_id = ''f1'', frame_name = ''Frame 1'',
      frame_dots = [exampleDotA, exampleDotB],
      frame_connections = [exampleConnection],
      frame_groups = [],
      frame_duration = 1600, frame_easing = ''linear'',
      frame_dotFadeInDuration = 240, frame_dotFadeOutDuration = 240,
      frame_dotColorTransitionDuration = Some 240,
      frame_dotColorTransitionEasing = Some ''easeInOut'',
      frame_connectionAnimationDuration = 500, frame_connectionStagger = 50,
      frame_dotStagger = 18,
      frame_animateDots = True, frame_animateConnections = True\<rparr>"

definition exampleAutoConnection :: AutoConnection where
  "exampleAutoConnection =
     \<lparr>ac_id = ''auto'', ac_fromX = 0, ac_fromY = 0, ac_toX = 3, ac_toY = 3, ac_color = 2,
      ac_traceInDuration = 500, ac_traceOutDuration = Some 200,
      ac_traceInReverse = False, ac_traceOutReverse = False,
      ac_stayDuration = Some 300, ac_startTime = 1000\<rparr>"

text \<open>The segment that \<open>buildConnectionPaths\<close> makes of a connection and its two dots.\<close>

definition makeSegment :: "DotPlayerConnection \<Rightarrow> DotPlayerDot \<Rightarrow> DotPlayerDot \<Rightarrow> ConnectionSegment" where
  "makeSegment connection from to =
     \<lparr>seg_connection = connection, seg_from = from, seg_to = to,
      seg_key = deriveConnectionKey from to,
      seg_length = hypot (real_of_int (dot_x to - dot_x from)) (real_of_int (dot_y to - dot_y from))\<rparr>"

text \<open>More of the example scene: a third dot, a triangle of connections, and the first
  connection drawn the other way round.\<close>

definition exampleDotC :: DotPlayerDot where
  "exampleDotC = \<lparr>dot_id = ''C'', dot_x = 1, dot_y = 1, dot_color = 1,
                   dot_fadeInDuration = None, dot_fadeOutDuration = None\<rparr>"

definition exampleConnectionBC :: DotPlayerConnection where
  "exampleConnectionBC = \<lparr>conn_id = ''BC'', conn_from = ''B'', conn_to = ''C'', conn_color = 2,
                           conn_order = 1, conn_revealDuration = None\<rparr>"

definition exampleConnectionCA :: DotPlayerConnection where
  "exampleConnectionCA = \<lparr>conn_id = ''CA'', conn_from = ''C'', conn_to = ''A'', conn_color = 2,
                           conn_order = 2, conn_revealDuration = None\<rparr>"

definition exampleConnectionBA :: DotPlayerConnection where
  "exampleConnectionBA = \<lparr>conn_id = ''BA'', conn_from = ''B'', conn_to = ''A'', conn_color = 2,
                           conn_order = 0, conn_revealDuration = None\<rparr>"

definition exampleReversedFrame :: DotPlayerFrame where
  "exampleReversedFrame = exampleFrame\<lparr>frame_connections := [exampleConnectionBA]\<rparr>"

text \<open>
  The colour cache. \<open>parseUncached\<close> is what \<open>parseColor\<close> computes of a trimmed string when the
  cache has no entry for it. A cache is reachable when calls of \<open>parseColor\<close>, the only
  function that writes to it, lead to it from the empty cache of a fresh page; it is sound
  when each of its entries is what parsing its key gives.
\<close>

definition parseUncached :: "string \<Rightarrow> RgbaColor option" where
  "parseUncached trimmed =
     (if startsWith trimmed ''#'' then parseHexColor trimmed else parseRgbColor trimmed)"

inductive reachableCache :: "ColorCache \<Rightarrow> bool" where
  initial: "reachableCache Map.empty"
| parsed: "reachableCache colorCache \<Longrightarrow> reachableCache (snd (parseColor colorCache v))"

definition cacheSound :: "ColorCache \<Rightarrow> bool" where
  "cacheSound colorCache = (\<forall>k v. colorCache k = Some v \<longrightarrow> parseUncached k = Some v)"

text \<open>
  A connection is dangling in a frame when one of its endpoints is the id of no dot of the
  frame. \<open>withoutConnection\<close> removes a connection from a frame, \<open>withoutConnectionState\<close>
  from the frame being drawn and from its copies in the list of frames.
\<close>

definition dangling :: "DotPlayerFrame \<Rightarrow> DotPlayerConnection \<Rightarrow> bool" where
  "dangling frame connection =
     (deriveDotMap (frame_dots frame) (conn_from connection) = None \<or>
      deriveDotMap (frame_dots frame) (conn_to connection) = None)"

definition withoutConnection :: "DotPlayerConnection \<Rightarrow> DotPlayerFrame \<Rightarrow> DotPlayerFrame" where
  "withoutConnection connection frame =
     frame\<lparr>frame_connections := filter (\<lambda>c. c \<noteq> connection) (frame_connections frame)\<rparr>"

definition withoutConnectionIn ::
  "DotPlayerFrame \<Rightarrow> DotPlayerConnection \<Rightarrow> DotPlayerFrame \<Rightarrow> DotPlayerFrame" where
  "withoutConnectionIn frame connection f = (if f = frame then withoutConnection connection f else f)"

definition withoutConnectionState ::
  "DotPlayerConnection \<Rightarrow> FrameRenderState \<Rightarrow> FrameRenderState" where
  "withoutConnectionState connection state =
     state\<lparr>state_frame := withoutConnection connection (state_frame state),
           state_frames := map (withoutConnectionIn (state_frame state) connection) (state_frames state)\<rparr>"

text \<open>Settings, a canvas and two render states for the example scene; the second state has a
  connection to a dot \<open>X\<close> that the frame does not have.\<close>

definition exampleSettings :: DotPlayerSettings where
  "exampleSettings =
     \<lparr>settings_loopPlayback = True, settings_fadeInOnStart = False, settings_fadeOutOnEnd = False,
      settings_connectionFadeInOnStart = False, settings_connectionFadeOutOnEnd = False\<rparr>"

definition exampleContext :: RenderContext where
  "exampleContext =
     \<lparr>ctx_canvasSize = 120, ctx_gridOffset = 20, ctx_dotGap = 20, ctx_dotRadius = 4,
      ctx_gridSize = 4, ctx_gridColor = ''#e5e7eb'', ctx_gridDotSize = 1, ctx_showGrid = True,
      ctx_colors = PRESET_COLORS, ctx_connectionStrokeScale = 0.5,
      ctx_penTipRadiusOffset = 1, ctx_penTipShadowBlur = 4, ctx_penTipColor = ''#f97316''\<rparr>"

definition exampleState :: FrameRenderState where
  "exampleState =
     \<lparr>state_frame = exampleFrame, state_frameIndex = 0, state_totalFrames = 1,
      state_playhead = 800, state_settings = exampleSettings, state_frames = [exampleFrame]\<rparr>"

definition exampleDanglingConnection :: DotPlayerConnection where
  "exampleDanglingConnection =
     \<lparr>conn_id = ''AX'', conn_from = ''A'', conn_to = ''X'', conn_color = 2,
      conn_order = 1, conn_revealDuration = None\<rparr>"

definition exampleDanglingFrame :: DotPlayerFrame where
  "exampleDanglingFrame =
     exampleFrame\<lparr>frame_connections := [exampleDanglingConnection, exampleConnection]\<rparr>"

definition exampleDanglingState :: FrameRenderState where
  "exampleDanglingState =
     exampleState\<lparr>state_frame := exampleDanglingFrame, state_frames := [exampleDanglingFrame]\<rparr>"

section \<open>Properties of the pathfinder\<close>

subsection \<open>The open list\<close>

lemma findIndex_Some:
  "findIndex P xs = Some i \<Longrightarrow> i < length xs \<and> P (xs ! i)"
  by (induction xs arbitrary: i) (auto split: if_splits option.splits)

lemma findIndex_None:
  "findIndex P xs = None \<Longrightarrow> \<forall>x \<in> set xs. \<not> P x"
  by (induction xs) (auto split: if_splits option.splits)

lemma sqrt2_gt1: "1 < sqrt 2"
  by simp

lemma sqrt2_lt2: "sqrt 2 < 2"
  by (simp add: real_less_lsqrt)

lemma diagNode_xy [simp]: "node_x (diagNode n k) = int k" "node_y (diagNode n k) = int k"
  by (induction k) auto

lemma diagNode_g [simp]: "node_g (diagNode n k) = real k * sqrt 2"
  by (induction k) (auto simp: SQRT2_def algebra_simps)

lemma octile_diag:
  "int k \<le> n \<Longrightarrow> octileDistance (int k) (int k) n n = real_of_int (n - int k) * sqrt 2"
proof -
  assume "int k \<le> n"
  then have "octileDistance (int k) (int k) n n =
      real_of_int (n - int k) + (sqrt 2 - 1) * real_of_int (n - int k)"
    by (simp add: octileDistance_def SQRT2_def)
  also have "\<dots> = real_of_int (n - int k) * sqrt 2"
    by (simp add: algebra_simps)
  finally show ?thesis .
qed

lemma diagNode_f: "int k \<le> n \<Longrightarrow> node_f (diagNode n k) = real_of_int n * sqrt 2"
proof (cases k)
  case 0
  assume "int k \<le> n"
  with 0 show ?thesis using octile_diag[of 0 n] by simp
next
  case (Suc j)
  assume "int k \<le> n"
  with Suc have "int (Suc j) \<le> n" by simp
  from octile_diag[OF this] Suc show ?thesis
    by (simp add: algebra_simps SQRT2_def)
qed

lemma reconstructPath_diag:
  "reconstructPath (diagNode n k) acc = map (\<lambda>i. (int i, int i)) [0 ..< Suc k] @ acc"
  by (induction k arbitrary: acc) auto

lemma octile_to_corner:
  assumes "x \<le> n" "y \<le> n" "y \<le> x"
  shows "octileDistance x y n n = real_of_int (n - y) + (sqrt 2 - 1) * real_of_int (n - x)"
    and "octileDistance y x n n = real_of_int (n - y) + (sqrt 2 - 1) * real_of_int (n - x)"
proof -
  from assms have "\<bar>x - n\<bar> = n - x" "\<bar>y - n\<bar> = n - y" "n - x \<le> n - y" by auto
  then show "octileDistance x y n n = real_of_int (n - y) + (sqrt 2 - 1) * real_of_int (n - x)"
    and "octileDistance y x n n = real_of_int (n - y) + (sqrt 2 - 1) * real_of_int (n - x)"
    by (auto simp: octileDistance_def SQRT2_def Let_def max_def min_def)
qed

lemma side_f_bound:
  assumes "0 \<le> int k + a" "int k + a \<le> n" "0 \<le> int k + b" "int k + b \<le> n" "int k \<le> n"
    and "(a, b) \<in> {(0,-1),(1,-1),(1,0),(0,1),(-1,1),(-1,0)}"
    and "c = (if a \<noteq> 0 \<and> b \<noteq> 0 then sqrt 2 else 1)"
  shows "real k * sqrt 2 + c + octileDistance (int k + a) (int k + b) n n > real_of_int n * sqrt 2"
proof -
  have s1: "1 < sqrt 2" and s2: "sqrt 2 < 2" using sqrt2_gt1 sqrt2_lt2 by auto
  define K where "K = real k"
  define N where "N = real_of_int n"
  have straightNear: "K * sqrt 2 + 1 + ((N - K) + (sqrt 2 - 1) * (N - (K + 1))) > N * sqrt 2"
    using s2 by (simp add: algebra_simps)
  have straightFar: "K * sqrt 2 + 1 + ((N - (K - 1)) + (sqrt 2 - 1) * (N - K)) > N * sqrt 2"
    by (simp add: algebra_simps)
  have diagonal: "K * sqrt 2 + sqrt 2 + ((N - (K - 1)) + (sqrt 2 - 1) * (N - (K + 1))) > N * sqrt 2"
    by (simp add: algebra_simps)
  from assms(6) consider "a = 0 \<and> b = -1" | "a = 1 \<and> b = -1" | "a = 1 \<and> b = 0"
    | "a = 0 \<and> b = 1" | "a = -1 \<and> b = 1" | "a = -1 \<and> b = 0" by auto
  then show ?thesis
  proof cases
    case 1
    then have ab: "a = 0" "b = -1" by auto
    with assms(7) have c: "c = 1" by simp
    have "octileDistance (int k + 0) (int k + -1) n n =
            real_of_int (n - (int k + -1)) + (sqrt 2 - 1) * real_of_int (n - (int k + 0))"
      using assms(1-5) ab by (intro octile_to_corner) auto
    then show ?thesis unfolding ab c using straightFar by (simp add: K_def N_def)
  next
    case 2
    then have ab: "a = 1" "b = -1" by auto
    with assms(7) have c: "c = sqrt 2" by simp
    have "octileDistance (int k + 1) (int k + -1) n n =
            real_of_int (n - (int k + -1)) + (sqrt 2 - 1) * real_of_int (n - (int k + 1))"
      using assms(1-5) ab by (intro octile_to_corner) auto
    then show ?thesis unfolding ab c using diagonal by (simp add: K_def N_def)
  next
    case 3
    then have ab: "a = 1" "b = 0" by auto
    with assms(7) have c: "c = 1" by simp
    have "octileDistance (int k + 1) (int k + 0) n n =
            real_of_int (n - (int k + 0)) + (sqrt 2 - 1) * real_of_int (n - (int k + 1))"
      using assms(1-5) ab by (intro octile_to_corner) auto
    then show ?thesis unfolding ab c using straightNear by (simp add: K_def N_def)
  next
    case 4
    then have ab: "a = 0" "b = 1" by auto
    with assms(7) have c: "c = 1" by simp
    have "octileDistance (int k + 0) (int k + 1) n n =
            real_of_int (n - (int k + 0)) + (sqrt 2 - 1) * real_of_int (n - (int k + 1))"
      using assms(1-5) ab by (intro octile_to_corner) auto
    then show ?thesis unfolding ab c using straightNear by (simp add: K_def N_def)
  next
    case 5
    then have ab: "a = -1" "b = 1" by auto
    with assms(7) have c: "c = sqrt 2" by simp
    have "octileDistance (int k + -1) (int k + 1) n n =
            real_of_int (n - (int k + -1)) + (sqrt 2 - 1) * real_of_int (n - (int k + 1))"
      using assms(1-5) ab by (intro octile_to_corner) auto
    then show ?thesis unfolding ab c using diagonal by (simp add: K_def N_def)
  next
    case 6
    then have ab: "a = -1" "b = 0" by auto
    with assms(7) have c: "c = 1" by simp
    have "octileDistance (int k + -1) (int k + 0) n n =
            real_of_int (n - (int k + -1)) + (sqrt 2 - 1) * real_of_int (n - (int k + 0))"
      using assms(1-5) ab by (intro octile_to_corner) auto
    then show ?thesis unfolding ab c using straightFar by (simp add: K_def N_def)
  qed
qed

lemma findIndex_None_iff: "findIndex P xs = None \<longleftrightarrow> (\<forall>x \<in> set xs. \<not> P x)"
  by (induction xs) (auto split: if_splits option.splits)

lemma expandDirection_cases:
  obtains (same) "expandDirection e gridSize wo closedSet current openSet dir = openSet"
  | (push) "findIndex (\<lambda>m. node_x m = node_x current + dir_dx dir \<and>
                          node_y m = node_y current + dir_dy dir) openSet = None"
      "expandDirection e gridSize wo closedSet current openSet dir =
         openSet @ [PathNode (node_x current + dir_dx dir) (node_y current + dir_dy dir)
                      (node_g current + dir_cost dir)
                      (octileDistance (node_x current + dir_dx dir) (node_y current + dir_dy dir) (fst e) (snd e))
                      (node_g current + dir_cost dir +
                       octileDistance (node_x current + dir_dx dir) (node_y current + dir_dy dir) (fst e) (snd e))
                      (Some current)]"
      "0 \<le> node_x current + dir_dx dir" "node_x current + dir_dx dir < gridSize"
      "0 \<le> node_y current + dir_dy dir" "node_y current + dir_dy dir < gridSize"
      "createPositionKey (node_x current + dir_dx dir) (node_y current + dir_dy dir) \<notin> closedSet"
  | (update) i where "i < length openSet"
      "node_x (openSet ! i) = node_x current + dir_dx dir"
      "node_y (openSet ! i) = node_y current + dir_dy dir"
      "expandDirection e gridSize wo closedSet current openSet dir =
         openSet[i := PathNode (node_x current + dir_dx dir) (node_y current + dir_dy dir)
                      (node_g current + dir_cost dir)
                      (node_h (openSet ! i))
                      (node_g current + dir_cost dir +
                       octileDistance (node_x current + dir_dx dir) (node_y current + dir_dy dir) (fst e) (snd e))
                      (Some current)]"
      "0 \<le> node_x current + dir_dx dir" "node_x current + dir_dx dir < gridSize"
      "0 \<le> node_y current + dir_dy dir" "node_y current + dir_dy dir < gridSize"
      "createPositionKey (node_x current + dir_dx dir) (node_y current + dir_dy dir) \<notin> closedSet"
proof (cases "expandDirection e gridSize wo closedSet current openSet dir = openSet")
  case True
  then show ?thesis by (rule same)
next
  case False
  let ?nx = "node_x current + dir_dx dir" and ?ny = "node_y current + dir_dy dir"
  from False have guards: "0 \<le> ?nx" "?nx < gridSize" "0 \<le> ?ny" "?ny < gridSize"
      "createPositionKey ?nx ?ny \<notin> closedSet"
    unfolding expandDirection_def Let_def by (auto split: if_splits)
  show ?thesis
  proof (cases "findIndex (\<lambda>m. node_x m = ?nx \<and> node_y m = ?ny) openSet")
    case None
    with False have eq: "expandDirection e gridSize wo closedSet current openSet dir =
         openSet @ [PathNode ?nx ?ny (node_g current + dir_cost dir)
                      (octileDistance ?nx ?ny (fst e) (snd e))
                      (node_g current + dir_cost dir + octileDistance ?nx ?ny (fst e) (snd e))
                      (Some current)]"
      unfolding expandDirection_def Let_def by (auto split: if_splits)
    show ?thesis by (rule push[OF None eq guards])
  next
    case (Some i)
    from findIndex_Some[OF Some] have i: "i < length openSet"
      "node_x (openSet ! i) = ?nx" "node_y (openSet ! i) = ?ny" by auto
    from Some False have eq: "expandDirection e gridSize wo closedSet current openSet dir =
         openSet[i := PathNode ?nx ?ny (node_g current + dir_cost dir)
                      (node_h (openSet ! i))
                      (node_g current + dir_cost dir + octileDistance ?nx ?ny (fst e) (snd e))
                      (Some current)]"
      unfolding expandDirection_def Let_def by (auto split: if_splits simp: i)
    show ?thesis by (rule update[OF i eq guards])
  qed
qed

lemma expandDirection_distinct:
  assumes "distinct (map nodePos openSet)"
  shows "distinct (map nodePos (expandDirection e gridSize wo closedSet current openSet dir))"
proof (cases rule: expandDirection_cases[of e gridSize wo closedSet current openSet dir])
  case same
  with assms show ?thesis by simp
next
  case push
  from findIndex_None[OF push(1)] assms push(2) show ?thesis
    by (auto simp: nodePos_def)
next
  case (update i)
  have "map nodePos (openSet[i := PathNode (node_x current + dir_dx dir) (node_y current + dir_dy dir)
                      (node_g current + dir_cost dir)
                      (node_h (openSet ! i))
                      (node_g current + dir_cost dir +
                       octileDistance (node_x current + dir_dx dir) (node_y current + dir_dy dir) (fst e) (snd e))
                      (Some current)]) = map nodePos openSet"
    using update(1-3) by (simp add: map_update nodePos_def list_update_same_conv)
  with assms update(4) show ?thesis by simp
qed


lemma lowestIndex_fold:
  "lo < length xs \<Longrightarrow> \<forall>i \<in> set is. i < length xs \<Longrightarrow>
   foldl (\<lambda>lowest i. if node_f (xs ! i) < node_f (xs ! lowest) then i else lowest) lo is < length xs \<and>
   node_f (xs ! foldl (\<lambda>lowest i. if node_f (xs ! i) < node_f (xs ! lowest) then i else lowest) lo is)
     \<le> node_f (xs ! lo) \<and>
   (\<forall>i \<in> set is.
      node_f (xs ! foldl (\<lambda>lowest i. if node_f (xs ! i) < node_f (xs ! lowest) then i else lowest) lo is)
        \<le> node_f (xs ! i))"
proof (induction "is" arbitrary: lo)
  case Nil
  then show ?case by simp
next
  case (Cons i "is")
  let ?lo = "if node_f (xs ! i) < node_f (xs ! lo) then i else lo"
  from Cons.prems have "?lo < length xs" "\<forall>i \<in> set is. i < length xs" by auto
  from Cons.IH[OF this] show ?case by (auto split: if_splits)
qed

lemma lowestIndex_less:
  "openSet \<noteq> [] \<Longrightarrow> lowestIndex openSet < length openSet"
  using lowestIndex_fold[of 0 openSet "[1 ..< length openSet]"] by (simp add: lowestIndex_def)

lemma lowestIndex_min:
  assumes "j < length openSet"
  shows "node_f (openSet ! lowestIndex openSet) \<le> node_f (openSet ! j)"
proof -
  from assms have "0 < length openSet" by auto
  from lowestIndex_fold[OF this, of "[1 ..< length openSet]"]
  have *: "node_f (openSet ! lowestIndex openSet) \<le> node_f (openSet ! 0)"
    "\<forall>i \<in> set [1 ..< length openSet]. node_f (openSet ! lowestIndex openSet) \<le> node_f (openSet ! i)"
    by (auto simp: lowestIndex_def)
  show ?thesis
  proof (cases j)
    case 0
    with * show ?thesis by simp
  next
    case (Suc j')
    with assms have "j \<in> set [1 ..< length openSet]" by simp
    with * show ?thesis by blast
  qed
qed

lemma lowestIndex_unique:
  assumes "d \<in> set openSet" and "\<forall>m \<in> set openSet. m = d \<or> node_f d < node_f m"
  shows "openSet ! lowestIndex openSet = d"
proof -
  from assms(1) obtain j where j: "j < length openSet" "openSet ! j = d"
    by (auto simp: in_set_conv_nth)
  then have ne: "openSet \<noteq> []" by auto
  from lowestIndex_min[OF j(1)] j(2)
  have le: "node_f (openSet ! lowestIndex openSet) \<le> node_f d" by simp
  have "openSet ! lowestIndex openSet \<in> set openSet"
    using lowestIndex_less[OF ne] by simp
  with assms(2) le show ?thesis by fastforce
qed

subsection \<open>The search on the empty grid\<close>

lemma back_direction_skipped:
  assumes "0 < k \<longrightarrow> (int k - 1, int k - 1) \<in> closedSet"
    and "dir_dx dir = -1" "dir_dy dir = -1"
  shows "expandDirection e gridSize wo closedSet (diagNode n k) openSet dir = openSet"
  using assms by (cases "k = 0") (auto simp: expandDirection_def Let_def createPositionKey_def)

lemma side_direction:
  assumes k: "int k \<le> n"
    and dir: "(dir_dx dir, dir_dy dir) \<in> {(0,-1),(1,-1),(1,0),(0,1),(-1,1),(-1,0)}"
    and cost: "dir_cost dir = (if dir_dx dir \<noteq> 0 \<and> dir_dy dir \<noteq> 0 then SQRT2 else 1)"
    and inv: "\<forall>m \<in> set openSet. Q m"
    and offQ: "\<And>m. offPath n m \<Longrightarrow> Q m"
  shows "\<forall>m \<in> set (expandDirection (n, n) (n + 1) wo closedSet (diagNode n k) openSet dir). Q m"
proof (cases rule: expandDirection_cases[of "(n, n)" "n + 1" wo closedSet "diagNode n k" openSet dir])
  case same
  with inv show ?thesis by simp
next
  case push
  have "offPath n (PathNode (int k + dir_dx dir) (int k + dir_dy dir) g h
          (real k * sqrt 2 + dir_cost dir + octileDistance (int k + dir_dx dir) (int k + dir_dy dir) n n) p)"
    for g h p
    unfolding offPath_def
    using side_f_bound[of k "dir_dx dir" n "dir_dy dir" "dir_cost dir"] k dir cost push(3-6)
    by (auto simp: SQRT2_def)
  with push(2) inv offQ show ?thesis by auto
next
  case (update i)
  have "offPath n (PathNode (int k + dir_dx dir) (int k + dir_dy dir) g h
          (real k * sqrt 2 + dir_cost dir + octileDistance (int k + dir_dx dir) (int k + dir_dy dir) n n) p)"
    for g h p
    unfolding offPath_def
    using side_f_bound[of k "dir_dx dir" n "dir_dy dir" "dir_cost dir"] k dir cost update(5-8)
    by (auto simp: SQRT2_def)
  with update(4) inv offQ show ?thesis
    by (auto dest!: set_update_subset_insert[THEN subsetD])
qed

lemma side_direction_keeps:
  assumes dir: "(dir_dx dir, dir_dy dir) \<in> {(0,-1),(1,-1),(1,0),(0,1),(-1,1),(-1,0)}"
    and d: "d \<in> set openSet" "node_x d = node_y d"
  shows "d \<in> set (expandDirection e gridSize wo closedSet (diagNode n k) openSet dir)"
proof (cases rule: expandDirection_cases[of e gridSize wo closedSet "diagNode n k" openSet dir])
  case same
  with d show ?thesis by simp
next
  case push
  with d show ?thesis by simp
next
  case (update i)
  from dir update(2,3) have "node_x (openSet ! i) \<noteq> node_y (openSet ! i)" by auto
  with d(2) have ne: "openSet ! i \<noteq> d" by auto
  from d(1) obtain j where j: "j < length openSet" "openSet ! j = d"
    by (auto simp: in_set_conv_nth)
  with ne have "j \<noteq> i" by auto
  with j update(4) show ?thesis
    by (auto simp: in_set_conv_nth intro!: exI[of _ j])
qed

lemma diagonal_direction:
  assumes k: "int k < n"
    and dir: "dir_dx dir = 1" "dir_dy dir = 1" "dir_cost dir = SQRT2"
    and off: "\<forall>m \<in> set openSet. offPath n m"
    and closed: "(int k + 1, int k + 1) \<notin> closedSet"
  shows "expandDirection (n, n) (n + 1) {} closedSet (diagNode n k) openSet dir =
           openSet @ [diagNode n (Suc k)]"
proof -
  have "findIndex (\<lambda>m. node_x m = int k + 1 \<and> node_y m = int k + 1) openSet = None"
    using off by (auto simp: findIndex_None_iff offPath_def)
  with k dir closed show ?thesis
    by (simp add: expandDirection_def Let_def createPositionKey_def)
qed


lemma expandNeighbors_diag:
  assumes k: "int k < n"
    and dist: "distinct (map nodePos rest)"
    and off: "\<forall>m \<in> set rest. offPath n m"
    and behind: "0 < k \<longrightarrow> (int k - 1, int k - 1) \<in> closedSet"
    and ahead: "(int k + 1, int k + 1) \<notin> closedSet"
  shows "distinct (map nodePos (expandNeighbors (n, n) (n + 1) {} closedSet (diagNode n k) rest)) \<and>
         diagNode n (Suc k) \<in> set (expandNeighbors (n, n) (n + 1) {} closedSet (diagNode n k) rest) \<and>
         (\<forall>m \<in> set (expandNeighbors (n, n) (n + 1) {} closedSet (diagNode n k) rest).
            m = diagNode n (Suc k) \<or> offPath n m)"
proof -
  let ?E = "expandDirection (n, n) (n + 1) {} closedSet (diagNode n k)"
  let ?d = "diagNode n (Suc k)"
  let ?Q = "\<lambda>m. m = ?d \<or> offPath n m"
  define o1 where "o1 = ?E rest \<lparr>dir_dx = 0, dir_dy = -1, dir_cost = 1\<rparr>"
  define o2 where "o2 = ?E o1 \<lparr>dir_dx = 1, dir_dy = -1, dir_cost = SQRT2\<rparr>"
  define o3 where "o3 = ?E o2 \<lparr>dir_dx = 1, dir_dy = 0, dir_cost = 1\<rparr>"
  define o4 where "o4 = ?E o3 \<lparr>dir_dx = 1, dir_dy = 1, dir_cost = SQRT2\<rparr>"
  define o5 where "o5 = ?E o4 \<lparr>dir_dx = 0, dir_dy = 1, dir_cost = 1\<rparr>"
  define o6 where "o6 = ?E o5 \<lparr>dir_dx = -1, dir_dy = 1, dir_cost = SQRT2\<rparr>"
  define o7 where "o7 = ?E o6 \<lparr>dir_dx = -1, dir_dy = 0, dir_cost = 1\<rparr>"
  define o8 where "o8 = ?E o7 \<lparr>dir_dx = -1, dir_dy = -1, dir_cost = SQRT2\<rparr>"
  have res: "expandNeighbors (n, n) (n + 1) {} closedSet (diagNode n k) rest = o8"
    by (simp add: expandNeighbors_def DIRECTIONS_def o1_def o2_def o3_def o4_def o5_def o6_def
        o7_def o8_def)
  from k have kle: "int k \<le> n" by simp
  have d_diag: "node_x ?d = node_y ?d" by simp
  have i1: "\<forall>m \<in> set o1. offPath n m"
    unfolding o1_def by (rule side_direction[OF kle _ _ off]) auto
  have i2: "\<forall>m \<in> set o2. offPath n m"
    unfolding o2_def by (rule side_direction[OF kle _ _ i1]) auto
  have i3: "\<forall>m \<in> set o3. offPath n m"
    unfolding o3_def by (rule side_direction[OF kle _ _ i2]) auto
  have e4: "o4 = o3 @ [?d]"
    unfolding o4_def by (rule diagonal_direction[OF k _ _ _ i3 ahead]) auto
  with i3 have i4: "\<forall>m \<in> set o4. ?Q m" and m4: "?d \<in> set o4" by auto
  have i5: "\<forall>m \<in> set o5. ?Q m"
    unfolding o5_def by (rule side_direction[OF kle _ _ i4]) auto
  have m5: "?d \<in> set o5"
    unfolding o5_def by (rule side_direction_keeps[OF _ m4 d_diag]) auto
  have i6: "\<forall>m \<in> set o6. ?Q m"
    unfolding o6_def by (rule side_direction[OF kle _ _ i5]) auto
  have m6: "?d \<in> set o6"
    unfolding o6_def by (rule side_direction_keeps[OF _ m5 d_diag]) auto
  have i7: "\<forall>m \<in> set o7. ?Q m"
    unfolding o7_def by (rule side_direction[OF kle _ _ i6]) auto
  have m7: "?d \<in> set o7"
    unfolding o7_def by (rule side_direction_keeps[OF _ m6 d_diag]) auto
  have e8: "o8 = o7"
    unfolding o8_def by (rule back_direction_skipped[OF behind]) auto
  have "distinct (map nodePos o8)"
    unfolding o8_def o7_def o6_def o5_def o4_def o3_def o2_def o1_def
    by (intro expandDirection_distinct dist)
  with e8 i7 m7 res show ?thesis by simp
qed

lemma splice1_rest:
  assumes "distinct (map nodePos openSet)" "i < length openSet"
  shows "distinct (map nodePos (splice1 i openSet))"
    and "\<forall>m \<in> set (splice1 i openSet). m \<in> set openSet \<and> m \<noteq> openSet ! i"
proof -
  from assms(2) have split: "openSet = take i openSet @ (openSet ! i) # drop (Suc i) openSet"
    by (simp add: id_take_nth_drop)
  from assms(1) have "distinct (map nodePos (take i openSet @ (openSet ! i) # drop (Suc i) openSet))"
    using split by simp
  then show "distinct (map nodePos (splice1 i openSet))"
    by (simp add: splice1_def)
  from assms(1) have "distinct openSet" by (rule distinct_map[THEN iffD1, THEN conjunct1])
  then have "distinct (take i openSet @ (openSet ! i) # drop (Suc i) openSet)"
    using split by simp
  then show "\<forall>m \<in> set (splice1 i openSet). m \<in> set openSet \<and> m \<noteq> openSet ! i"
    by (auto simp: splice1_def dest: in_set_takeD in_set_dropD)
qed

lemma searchLoop_diag:
  assumes "diagInv n k openSet closedSet"
  shows "searchLoop (n, n) (n + 1) {} openSet closedSet =
           Some (Some (map (\<lambda>i. (int i, int i)) [0 ..< Suc (nat n)]))"
  using assms
proof (induction "nat n - k" arbitrary: k openSet closedSet)
  case 0
  then have kn: "int k = n" by (auto simp: diagInv_def)
  from 0 have cur: "openSet ! lowestIndex openSet = diagNode n k"
    unfolding diagInv_def
    by (intro lowestIndex_unique) (auto simp: offPath_def diagNode_f)
  from 0 have ne: "openSet \<noteq> []" by (auto simp: diagInv_def)
  from kn have "k = nat n" by simp
  with ne cur kn show ?case
    by (subst searchLoop.simps) (simp add: reconstructPath_diag)
next
  case (Suc d)
  then have kn: "int k < n" by (auto simp: diagInv_def)
  from Suc.prems have inv: "distinct (map nodePos openSet)" "diagNode n k \<in> set openSet"
    "\<forall>m \<in> set openSet. m = diagNode n k \<or> offPath n m"
    "0 < k \<longrightarrow> (int k - 1, int k - 1) \<in> closedSet" "\<forall>j \<ge> int k. (j, j) \<notin> closedSet"
    by (auto simp: diagInv_def)
  from kn inv have cur: "openSet ! lowestIndex openSet = diagNode n k"
    by (intro lowestIndex_unique) (auto simp: offPath_def diagNode_f)
  from inv have ne: "openSet \<noteq> []" by auto
  let ?closed = "insert (int k, int k) closedSet"
  let ?rest = "splice1 (lowestIndex openSet) openSet"
  from splice1_rest[OF inv(1) lowestIndex_less[OF ne]] cur inv(3)
  have rest: "distinct (map nodePos ?rest)" "\<forall>m \<in> set ?rest. offPath n m"
    by auto
  have ahead: "(int k + 1, int k + 1) \<notin> ?closed" using inv(5) by auto
  have behind: "0 < k \<longrightarrow> (int k - 1, int k - 1) \<in> ?closed" using inv(4) by auto
  from expandNeighbors_diag[OF kn rest behind ahead]
  have "diagInv n (Suc k) (expandNeighbors (n, n) (n + 1) {} ?closed (diagNode n k) ?rest) ?closed"
    using kn inv(5) by (auto simp: diagInv_def)
  moreover from Suc.hyps(2) have "d = nat n - Suc k" by simp
  ultimately have "searchLoop (n, n) (n + 1) {}
      (expandNeighbors (n, n) (n + 1) {} ?closed (diagNode n k) ?rest) ?closed =
      Some (Some (map (\<lambda>i. (int i, int i)) [0 ..< Suc (nat n)]))"
    by (rule Suc.hyps(1)[rotated])
  with ne cur kn show ?case
    by (subst searchLoop.simps) (simp add: createPositionKey_def)
qed


subsection \<open>No corner is cut\<close>

lemma reconstructPath_ok:
  "chainOk wo n \<Longrightarrow> successively (\<lambda>a b. \<not> cutsCorner wo a b) ((node_x n, node_y n) # acc) \<Longrightarrow>
   successively (\<lambda>a b. \<not> cutsCorner wo a b) (reconstructPath n acc)"
proof (induction n acc rule: reconstructPath.induct)
  case (1 x y g h f path)
  then show ?case by simp
next
  case (2 x y g h f p path)
  then show ?case by simp
qed

lemma chainOk_child:
  assumes "chainOk wo current"
    and "\<not> (dir_dx dir \<noteq> 0 \<and> dir_dy dir \<noteq> 0 \<and>
            (createPositionKey (node_x current + dir_dx dir) (node_y current) \<in> wo \<or>
             createPositionKey (node_x current) (node_y current + dir_dy dir) \<in> wo))"
  shows "chainOk wo (PathNode (node_x current + dir_dx dir) (node_y current + dir_dy dir) g h f (Some current))"
  using assms by (auto simp: cutsCorner_def)

lemma expandDirection_chainOk:
  assumes os: "\<forall>n \<in> set openSet. chainOk wo n" and cur: "chainOk wo current"
  shows "\<forall>n \<in> set (expandDirection e gridSize wo closedSet current openSet dir). chainOk wo n"
proof (cases "expandDirection e gridSize wo closedSet current openSet dir = openSet")
  case True
  with os show ?thesis by simp
next
  case False
  let ?nx = "node_x current + dir_dx dir" and ?ny = "node_y current + dir_dy dir"
  let ?g = "node_g current + dir_cost dir"
  let ?h = "octileDistance ?nx ?ny (fst e) (snd e)"
  from False have nocut: "\<not> (dir_dx dir \<noteq> 0 \<and> dir_dy dir \<noteq> 0 \<and>
            (createPositionKey (node_x current + dir_dx dir) (node_y current) \<in> wo \<or>
             createPositionKey (node_x current) (node_y current + dir_dy dir) \<in> wo))"
    unfolding expandDirection_def Let_def by (auto split: if_splits)
  show ?thesis
  proof (cases "findIndex (\<lambda>n. node_x n = ?nx \<and> node_y n = ?ny) openSet")
    case None
    with False have "expandDirection e gridSize wo closedSet current openSet dir =
        openSet @ [PathNode ?nx ?ny ?g ?h (?g + ?h) (Some current)]"
      unfolding expandDirection_def Let_def by (auto split: if_splits)
    with os chainOk_child[OF cur nocut] show ?thesis by auto
  next
    case (Some i)
    then have pos: "node_x (openSet ! i) = ?nx" "node_y (openSet ! i) = ?ny"
      using findIndex_Some[OF Some] by auto
    from Some False have "expandDirection e gridSize wo closedSet current openSet dir =
        openSet[i := PathNode ?nx ?ny ?g (node_h (openSet ! i)) (?g + ?h) (Some current)]"
      unfolding expandDirection_def Let_def by (auto split: if_splits simp: pos)
    with os chainOk_child[OF cur nocut] show ?thesis
      by (auto dest!: set_update_subset_insert[THEN subsetD])
  qed
qed

lemma expandNeighbors_chainOk:
  assumes "\<forall>n \<in> set openSet. chainOk wo n" and "chainOk wo current"
  shows "\<forall>n \<in> set (expandNeighbors e gridSize wo closedSet current openSet). chainOk wo n"
proof -
  have "\<forall>n \<in> set (foldl (expandDirection e gridSize wo closedSet current) openSet ds). chainOk wo n"
    for ds
    using assms(1)
  proof (induction ds arbitrary: openSet)
    case Nil
    then show ?case by simp
  next
    case (Cons d ds)
    show ?case
      using Cons.IH[OF expandDirection_chainOk[OF Cons.prems assms(2)]] by simp
  qed
  then show ?thesis by (simp add: expandNeighbors_def)
qed

lemma set_splice1: "set (splice1 i xs) \<subseteq> set xs"
  unfolding splice1_def by (auto dest: in_set_takeD in_set_dropD)

lemma searchLoop_chainOk:
  "searchLoop e gridSize wo openSet closedSet = Some r \<Longrightarrow>
   \<forall>n \<in> set openSet. chainOk wo n \<Longrightarrow> r = Some path \<Longrightarrow>
   successively (\<lambda>a b. \<not> cutsCorner wo a b) path"
proof (induction rule: searchLoop.raw_induct[rotated, consumes 1])
  case (1 searchLoop e gridSize wo openSet closedSet r)
  let ?cur = "openSet ! lowestIndex openSet"
  have ne: "openSet \<noteq> []"
  proof
    assume "openSet = []"
    with "1.hyps" "1.prems" show False by simp
  qed
  then have len: "0 < length openSet" by simp
  note body = "1.hyps"[unfolded if_P[OF len]]
  from ne have "lowestIndex openSet < length openSet" by (rule lowestIndex_less)
  then have cur: "?cur \<in> set openSet" by simp
  with "1.prems" have curOk: "chainOk wo ?cur" by blast
  show ?case
  proof (cases "node_x ?cur = fst e \<and> node_y ?cur = snd e")
    case True
    from body[unfolded if_P[OF True]] "1.prems" have "path = reconstructPath ?cur []" by simp
    moreover have "successively (\<lambda>a b. \<not> cutsCorner wo a b) (reconstructPath ?cur [])"
      using curOk by (intro reconstructPath_ok) simp_all
    ultimately show ?thesis by simp
  next
    case False
    note rec = body[unfolded if_not_P[OF False]]
    have "\<forall>n \<in> set (splice1 (lowestIndex openSet) openSet). chainOk wo n"
      using "1.prems"(1) set_splice1[of "lowestIndex openSet" openSet] by auto
    then have "\<forall>n \<in> set (expandNeighbors e gridSize wo
        (insert (createPositionKey (node_x ?cur) (node_y ?cur)) closedSet) ?cur
        (splice1 (lowestIndex openSet) openSet)). chainOk wo n"
      using curOk by (rule expandNeighbors_chainOk)
    from "1.IH"[OF rec this "1.prems"(2)] show ?thesis .
  qed
qed

lemma findPath_diag:
  assumes "2 \<le> R"
  shows "findPath (0, 0) (R - 1, R - 1) R {} =
           Some (Some (map (\<lambda>i. (int i, int i)) [0 ..< Suc (nat (R - 1))]))"
proof -
  have "diagInv (R - 1) 0 [diagNode (R - 1) 0] {}"
    using assms by (simp add: diagInv_def nodePos_def)
  from searchLoop_diag[OF this] assms show ?thesis
    by (simp add: findPath_def Let_def)
qed

lemma findPath_two_by_two: "findPath (0, 0) (1, 1) 2 {} = Some (Some [(0, 0), (1, 1)])"
  using findPath_diag[of 2] by (simp add: upt_rec)

text \<open>The rule at work: with \<open>(1, 0)\<close> blocked the diagonal is not taken.\<close>

lemma findPath_around_corner:
  "findPath (0, 0) (1, 1) 2 {(1, 0)} = Some (Some [(0, 0), (0, 1), (1, 1)])"
  unfolding findPath_def Let_def
  by (simp add: searchLoop.simps lowestIndex_def expandNeighbors_def DIRECTIONS_def
      expandDirection_def Let_def createPositionKey_def splice1_def octileDistance_def SQRT2_def
      upt_rec)

text \<open>
  Claim C5. Whatever the start, the end, the grid size and the obstacles, a path
  that \<open>findPath\<close> returns has no diagonal step between two consecutive cells for
  which one of the two cells in between is an obstacle of the working obstacle
  set (the obstacles without the start and the end).
\<close>

theorem findPath_no_corner_cutting:
  assumes "findPath start e gridSize obstacles = Some (Some path)"
    and "Suc i < length path"
  shows "\<not> cutsCorner (obstacles - {createPositionKey (fst start) (snd start)}
                          - {createPositionKey (fst e) (snd e)}) (path ! i) (path ! Suc i)"
proof -
  let ?wo = "obstacles - {createPositionKey (fst start) (snd start)} - {createPositionKey (fst e) (snd e)}"
  let ?startNode = "PathNode (fst start) (snd start) 0
                      (octileDistance (fst start) (snd start) (fst e) (snd e))
                      (octileDistance (fst start) (snd start) (fst e) (snd e)) None"
  have steps: "successively (\<lambda>a b. \<not> cutsCorner ?wo a b) path"
  proof (cases "fst start = fst e \<and> snd start = snd e")
    case True
    with assms(1) have "path = [(fst start, snd start)]"
      by (simp add: findPath_def)
    then show ?thesis by simp
  next
    case False
    with assms(1) have loop: "searchLoop e gridSize ?wo [?startNode] {} = Some (Some path)"
      by (simp add: findPath_def Let_def)
    have "\<forall>n \<in> set [?startNode]. chainOk ?wo n" by simp
    from searchLoop_chainOk[OF loop this refl] show ?thesis .
  qed
  have "successively P xs \<Longrightarrow> Suc j < length xs \<Longrightarrow> P (xs ! j) (xs ! Suc j)"
    for P :: "GridPosition \<Rightarrow> GridPosition \<Rightarrow> bool" and xs j
  proof (induction xs arbitrary: j)
    case Nil
    then show ?case by simp
  next
    case (Cons a xs)
    then show ?case by (cases xs; cases j) auto
  qed
  from this[OF steps assms(2)] show ?thesis .
qed

theorem findPath_no_corner_cutting_witness:
  "findPath (0, 0) (1, 1) 2 {} = Some (Some [(0, 0), (1, 1)]) \<and>
   Suc 0 < length [(0 :: int, 0 :: int), (1, 1)] \<and>
   \<not> cutsCorner ({} - {createPositionKey 0 0} - {createPositionKey 1 1}) (0, 0) (1, 1)"
  using findPath_no_corner_cutting[OF findPath_two_by_two, of 0] findPath_two_by_two
  by simp

subsection \<open>The shortest path between opposite corners\<close>

lemma pathCost_diag:
  "pathCost (map (\<lambda>i. (int i, int i)) [a ..< a + Suc m]) = real m * sqrt 2"
proof (induction m arbitrary: a)
  case 0
  then show ?case by simp
next
  case (Suc m)
  have "[a ..< a + Suc (Suc m)] = a # Suc a # [Suc (Suc a) ..< Suc a + Suc m]"
    by (simp add: upt_conv_Cons)
  moreover have "[Suc a ..< Suc a + Suc m] = Suc a # [Suc (Suc a) ..< Suc a + Suc m]"
    by (simp add: upt_conv_Cons)
  ultimately have "pathCost (map (\<lambda>i. (int i, int i)) [a ..< a + Suc (Suc m)]) =
      SQRT2 + pathCost (map (\<lambda>i. (int i, int i)) [Suc a ..< Suc a + Suc m])"
    by (simp add: stepCost_def)
  with Suc.IH[of "Suc a"] show ?case by (simp add: SQRT2_def algebra_simps)
qed

text \<open>
  Claim C2. On an empty grid of any size \<open>R \<ge> 2\<close>, \<open>findPath\<close> from the corner \<open>(0, 0)\<close>
  to the corner \<open>(R - 1, R - 1)\<close> returns a path, and the cost of that path (1 for a
  step along an axis, \<open>\<surd>2\<close> for a diagonal step) is the octile distance between
  the corners, \<open>(R - 1) \<cdot> \<surd>2\<close>.
\<close>

theorem findPath_empty_grid_optimal:
  assumes "2 \<le> R"
  shows "\<exists>path. findPath (0, 0) (R - 1, R - 1) R {} = Some (Some path) \<and>
           pathCost path = octileDistance 0 0 (R - 1) (R - 1) \<and>
           pathCost path = real_of_int (R - 1) * sqrt 2"
proof -
  have "pathCost (map (\<lambda>i. (int i, int i)) [0 ..< Suc (nat (R - 1))]) = real (nat (R - 1)) * sqrt 2"
    using pathCost_diag[of 0 "nat (R - 1)"] by simp
  moreover have "octileDistance 0 0 (R - 1) (R - 1) = real_of_int (R - 1) * sqrt 2"
    using assms octile_diag[of 0 "R - 1"] by simp
  ultimately show ?thesis
    using findPath_diag[OF assms] assms by simp
qed

theorem findPath_empty_grid_optimal_witness:
  "\<exists>path. findPath (0, 0) (2, 2) 3 {} = Some (Some path) \<and>
      pathCost path = octileDistance 0 0 2 2 \<and> pathCost path = 2 * sqrt 2"
  using findPath_empty_grid_optimal[of 3] by simp

section \<open>Properties of the renderer\<close>

subsection \<open>Dots\<close>

lemma clamp_bounds: "0 \<le> clamp v 0 1" "clamp v 0 1 \<le> 1"
  by (simp_all add: clamp_def)

lemma dotFadeIn_bounds:
  "0 \<le> dotFadeIn fr prev easedTime stagger dotToGroup index dot"
  "dotFadeIn fr prev easedTime stagger dotToGroup index dot \<le> 1"
  by (simp_all add: dotFadeIn_def Let_def clamp_bounds)

lemma dotFadeOut_bounds:
  "0 \<le> dotFadeOut fr nxt easedTime dotToGroup dot"
  "dotFadeOut fr nxt easedTime dotToGroup dot \<le> 1"
  by (simp_all add: dotFadeOut_def Let_def clamp_bounds)

lemma dotAlpha_bounds:
  "0 \<le> dotAlpha fr prev nxt easedTime stagger dotToGroup index dot"
  "dotAlpha fr prev nxt easedTime stagger dotToGroup index dot \<le> 1"
  unfolding dotAlpha_def
  using dotFadeIn_bounds[of fr prev easedTime stagger dotToGroup index dot]
    dotFadeOut_bounds[of fr nxt easedTime dotToGroup dot]
  by auto

lemma renderDot_hidden:
  "dotAlpha fr prev nxt easedTime stagger dotToGroup index dot \<le> 0 \<Longrightarrow>
   renderDot context fr prev nxt prevDotColors easedTime stagger fadeOutDefault
     colorTransitionProgress dotToGroup colorCache index dot = ([], colorCache)"
  by (simp add: renderDot_def Let_def)

lemma renderDot_shown:
  "0 < dotAlpha fr prev nxt easedTime stagger dotToGroup index dot \<Longrightarrow>
   \<exists>fillColor.
     fst (renderDot context fr prev nxt prevDotColors easedTime stagger fadeOutDefault
            colorTransitionProgress dotToGroup colorCache index dot) =
       [Save,
        SetGlobalAlpha (Some (dotAlpha fr prev nxt easedTime stagger dotToGroup index dot)),
        SetFillStyle fillColor, BeginPath,
        Arc (real_of_int (dot_x dot) * ctx_dotGap context)
            (real_of_int (dot_y dot) * ctx_dotGap context)
            (ctx_dotRadius context *
               (0.6 + 0.4 * dotAlpha fr prev nxt easedTime stagger dotToGroup index dot))
            0 (pi * 2),
        Fill, Restore]"
  by (simp add: renderDot_def Let_def)

lemma dotAlpha_formula:
  "dotAlpha fr prev nxt easedTime stagger dotToGroup index dot =
     min (if createPositionKey (dot_x dot) (dot_y dot) \<notin> prev
          then clamp ((easedTime - real index * stagger) / dotFadeInDuration fr dotToGroup dot) 0 1
          else 1)
         (if createPositionKey (dot_x dot) (dot_y dot) \<notin> nxt
          then clamp ((frame_duration fr - easedTime) / dotFadeOutDuration fr dotToGroup dot) 0 1
          else 1)"
  by (simp add: dotAlpha_def dotFadeIn_def dotFadeOut_def dotDelay_def Let_def)



lemma clamp_unit: "0 \<le> v \<Longrightarrow> v \<le> 1 \<Longrightarrow> clamp v 0 1 = v"
  by (simp add: clamp_def)

lemma progress_before_start:
  "cumulativeTime < ac_startTime ac \<Longrightarrow> autoConnectionProgress ac cumulativeTime = None"
  by (simp add: autoConnectionProgress_def Let_def)

lemma progress_trace_in:
  assumes "ac_startTime ac \<le> t" "t - ac_startTime ac < ac_traceInDuration ac"
  shows "drawnFraction ac t = (t - ac_startTime ac) / ac_traceInDuration ac"
proof -
  let ?e = "t - ac_startTime ac"
  from assms have pos: "0 < ac_traceInDuration ac" "0 \<le> ?e" by auto
  then have "0 \<le> ?e / ac_traceInDuration ac" "?e / ac_traceInDuration ac \<le> 1"
    using assms(2) by (simp_all add: field_simps)
  then have c: "clamp (?e / ac_traceInDuration ac) 0 1 = ?e / ac_traceInDuration ac"
    by (rule clamp_unit)
  show ?thesis
  proof (cases "?e = 0")
    case True
    with assms pos show ?thesis
      by (simp add: drawnFraction_def autoConnectionProgress_def Let_def clamp_def)
  next
    case False
    with pos have "0 < ?e / ac_traceInDuration ac" by simp
    with assms pos c show ?thesis
      by (cases "ac_traceInReverse ac")
         (simp_all add: drawnFraction_def autoConnectionProgress_def Let_def)
  qed
qed

lemma progress_stay:
  assumes "ac_traceInDuration ac \<le> t - ac_startTime ac" "0 \<le> t - ac_startTime ac"
    "ac_stayDuration ac = Some stay" "t - ac_startTime ac < ac_traceInDuration ac + stay"
  shows "autoConnectionProgress ac t = Some (0, 1, False)"
  using assms
  by (simp add: autoConnectionProgress_def Let_def lessThanExtended_def)

lemma progress_trace_out:
  assumes "0 \<le> t - ac_startTime ac" "ac_traceInDuration ac \<le> t - ac_startTime ac"
    "ac_stayDuration ac = Some stay" "ac_traceOutDuration ac = Some out"
    "ac_traceInDuration ac + stay \<le> t - ac_startTime ac"
    "t - ac_startTime ac < ac_traceInDuration ac + stay + out"
  shows "drawnFraction ac t = 1 - (t - ac_startTime ac - (ac_traceInDuration ac + stay)) / out"
proof -
  let ?e = "t - ac_startTime ac - (ac_traceInDuration ac + stay)"
  from assms have pos: "0 < out" "0 \<le> ?e" "?e < out" by auto
  then have "0 \<le> ?e / out" "?e / out \<le> 1"
    by (simp_all add: field_simps)
  then have c: "clamp (?e / out) 0 1 = ?e / out"
    by (rule clamp_unit)
  have lt: "?e / out < 1" using pos by (simp add: field_simps)
  show ?thesis
    using assms pos c lt
    by (cases "ac_traceOutReverse ac")
       (auto simp: drawnFraction_def autoConnectionProgress_def Let_def lessThanExtended_def
          extendedPlus_def)
qed

lemma progress_after_end:
  assumes "0 \<le> t - ac_startTime ac" "ac_traceInDuration ac \<le> t - ac_startTime ac"
    "ac_stayDuration ac = Some stay" "ac_traceOutDuration ac = Some out"
    "ac_traceInDuration ac + stay + out \<le> t - ac_startTime ac"
    "0 \<le> out"
  shows "autoConnectionProgress ac t = None"
  using assms
  by (simp add: autoConnectionProgress_def Let_def lessThanExtended_def extendedPlus_def)

lemma renderAutoConnection_skipped:
  "autoConnectionProgress ac t = None \<Longrightarrow> renderAutoConnection context obstacles t ac = Some []"
  by (simp add: renderAutoConnection_def)

subsection \<open>Auto-connection phases\<close>

lemma foldl_durations:
  "foldl (\<lambda>t fr. t + frame_duration fr) a frames = a + sum_list (map frame_duration frames)"
  by (induction frames arbitrary: a) auto

lemma cumulativeTimeOf_sum:
  "cumulativeTimeOf frames frameIndex playhead = Some clock \<Longrightarrow>
   clock = sum_list (map frame_duration (take (nat frameIndex) frames)) + playhead"
  by (auto simp: cumulativeTimeOf_def foldl_durations split: if_splits)



subsection \<open>Divisions by a duration\<close>

lemma easedTimeOf_divisor:
  "easedTimeOf fr playhead =
     frame_duration fr *
       (nullishOr (easingFunctions (frame_easing fr)) easeLinear)
         (case frameProgressDivisor fr of None \<Rightarrow> 0 | Some d \<Rightarrow> clamp (playhead / d) 0 1)"
  by (simp add: easedTimeOf_def frameProgressDivisor_def Let_def)

lemma colorTransitionProgressOf_divisor:
  "colorTransitionProgressOf fr playhead =
     (case colorTransitionDivisor fr of
        None \<Rightarrow> 1
      | Some d \<Rightarrow>
          (nullishOr (easingFunctions (nullishOr (frame_dotColorTransitionEasing fr)
                                          DEFAULT_DOT_COLOR_TRANSITION_EASING)) easeLinear)
            (clamp (playhead / d) 0 1))"
  by (simp add: colorTransitionProgressOf_def colorTransitionDivisor_def Let_def)

lemma traceInDivisor_used:
  assumes "traceInDivisor ac t = Some d"
  shows "drawnFraction ac t = clamp ((t - ac_startTime ac) / d) 0 1"
proof -
  from assms have h: "ac_startTime ac \<le> t" "t - ac_startTime ac < ac_traceInDuration ac"
    "d = ac_traceInDuration ac"
    by (auto simp: traceInDivisor_def Let_def split: if_splits)
  then have "0 \<le> (t - ac_startTime ac) / d" "(t - ac_startTime ac) / d \<le> 1"
    by (simp_all add: field_simps)
  then have "clamp ((t - ac_startTime ac) / d) 0 1 = (t - ac_startTime ac) / d"
    by (rule clamp_unit)
  with progress_trace_in[OF h(1,2)] h(3) show ?thesis by simp
qed

lemma traceOutDivisor_used:
  assumes "traceOutDivisor ac t = Some d"
  shows "\<exists>stay. ac_stayDuration ac = Some stay \<and>
           drawnFraction ac t =
             1 - clamp ((t - ac_startTime ac - (ac_traceInDuration ac + stay)) / d) 0 1"
proof -
  from assms obtain stay where h: "ac_stayDuration ac = Some stay" "ac_traceOutDuration ac = Some d"
    "0 \<le> t - ac_startTime ac" "ac_traceInDuration ac \<le> t - ac_startTime ac"
    "ac_traceInDuration ac + stay \<le> t - ac_startTime ac"
    "t - ac_startTime ac < ac_traceInDuration ac + stay + d"
    by (auto simp: traceOutDivisor_def Let_def split: if_splits option.splits)
  let ?e = "t - ac_startTime ac - (ac_traceInDuration ac + stay)"
  from h have "0 < d" "0 \<le> ?e" "?e < d" by auto
  then have "0 \<le> ?e / d" "?e / d \<le> 1" by (simp_all add: field_simps)
  then have "clamp (?e / d) 0 1 = ?e / d" by (rule clamp_unit)
  with progress_trace_out[OF h(3,4,1,2,5,6)] h(1) show ?thesis by simp
qed






section \<open>Properties of the connection utilities\<close>

subsection \<open>Connection keys\<close>

lemma stringLess_asym: "stringLess a b \<Longrightarrow> \<not> stringLess b a"
  by (induction a b rule: stringLess.induct) auto

lemma stringLess_total: "\<not> stringLess a b \<Longrightarrow> \<not> stringLess b a \<Longrightarrow> a = b"
proof (induction a b rule: stringLess.induct)
  case (4 a as b bs)
  then have "\<not> (of_char a :: nat) < of_char b" "\<not> (of_char b :: nat) < of_char a" by auto
  then have "(of_char a :: nat) = of_char b" by simp
  then have ab: "a = b" by (simp only: of_char_eq_iff)
  with 4 show ?case by auto
qed auto

lemma digit_char_value: "d < 10 \<Longrightarrow> hexDigitValue (char_of (48 + d)) = Some d"
  by (simp add: hexDigitValue_def Let_def)

lemma digitsValue_snoc:
  "digitsValue radix (ds @ [c]) =
     radix * digitsValue radix ds + (case hexDigitValue c of None \<Rightarrow> 0 | Some d \<Rightarrow> d)"
  by (simp add: digitsValue_def)

lemma digitsValue_natToString: "digitsValue 10 (natToString n) = n"
proof (induction n rule: natToString.induct)
  case (1 n)
  show ?case
  proof (cases "n < 10")
    case True
    then have "natToString n = [char_of (48 + n)]" by (subst natToString.simps) simp
    moreover from True have "hexDigitValue (char_of (48 + n)) = Some n"
      by (rule digit_char_value)
    ultimately show ?thesis by (simp add: digitsValue_def)
  next
    case False
    then have s: "natToString n = natToString (n div 10) @ [char_of (48 + n mod 10)]"
      by (subst natToString.simps) simp
    have "n mod 10 < 10" by simp
    then have d: "hexDigitValue (char_of (48 + n mod 10)) = Some (n mod 10)"
      by (rule digit_char_value)
    have "digitsValue 10 (natToString n) =
        10 * digitsValue 10 (natToString (n div 10)) + n mod 10"
      by (subst s) (simp only: digitsValue_snoc d option.case)
    also have "\<dots> = 10 * (n div 10) + n mod 10"
      by (simp only: "1.IH"[OF False])
    also have "\<dots> = n" by simp
    finally show ?thesis .
  qed
qed

lemma natToString_inj: "natToString m = natToString n \<Longrightarrow> m = n"
proof -
  assume eq: "natToString m = natToString n"
  have "m = digitsValue 10 (natToString m)" by (simp only: digitsValue_natToString)
  also have "\<dots> = digitsValue 10 (natToString n)" by (simp only: eq)
  also have "\<dots> = n" by (rule digitsValue_natToString)
  finally show "m = n" .
qed

lemma natToString_chars: "c \<in> set (natToString n) \<Longrightarrow> isDigitChar c"
proof (induction n rule: natToString.induct)
  case (1 n)
  show ?case
  proof (cases "n < 10")
    case True
    then have "natToString n = [char_of (48 + n)]" by (subst natToString.simps) simp
    with "1.prems" True show ?thesis by (simp add: isDigitChar_def Let_def)
  next
    case False
    then have s: "natToString n = natToString (n div 10) @ [char_of (48 + n mod 10)]"
      by (subst natToString.simps) simp
    have "n mod 10 < 10" by simp
    then have "isDigitChar (char_of (48 + n mod 10))" by (simp add: isDigitChar_def Let_def)
    with "1.prems" "1.IH"[OF False] s show ?thesis by auto
  qed
qed

lemma natToString_nonempty: "natToString n \<noteq> []"
  by (subst natToString.simps) simp

lemma numberToString_chars:
  "c \<in> set (numberToString i) \<Longrightarrow> isDigitChar c \<or> c = CHR ''-''"
  by (auto simp: numberToString_def dest: natToString_chars split: if_splits)

lemma numberToString_inj: "numberToString i = numberToString j \<Longrightarrow> i = j"
proof -
  assume eq: "numberToString i = numberToString j"
  have minus: "\<not> isDigitChar CHR ''-''" by (simp add: isDigitChar_def)
  have head: "hd (natToString n) \<noteq> CHR ''-''" for n
    using natToString_chars[of "hd (natToString n)" n] natToString_nonempty[of n] minus
    by (cases "natToString n") auto
  show "i = j"
  proof (cases "i < 0"; cases "j < 0")
    assume "i < 0" "j < 0"
    with eq have "natToString (nat (- i)) = natToString (nat (- j))" by (simp add: numberToString_def)
    from natToString_inj[OF this] \<open>i < 0\<close> \<open>j < 0\<close> show ?thesis by simp
  next
    assume "i < 0" "\<not> j < 0"
    with eq have "CHR ''-'' # natToString (nat (- i)) = natToString (nat j)"
      by (simp add: numberToString_def)
    then have "hd (natToString (nat j)) = CHR ''-''" by (cases "natToString (nat j)") auto
    with head show ?thesis by blast
  next
    assume "\<not> i < 0" "j < 0"
    with eq have "natToString (nat i) = CHR ''-'' # natToString (nat (- j))"
      by (simp add: numberToString_def)
    then have "hd (natToString (nat i)) = CHR ''-''" by (cases "natToString (nat i)") auto
    with head show ?thesis by blast
  next
    assume "\<not> i < 0" "\<not> j < 0"
    with eq have "natToString (nat i) = natToString (nat j)" by (simp add: numberToString_def)
    from natToString_inj[OF this] \<open>\<not> i < 0\<close> \<open>\<not> j < 0\<close> show ?thesis by simp
  qed
qed

lemma split_at_colon:
  assumes "CHR '':'' \<notin> set xs" "CHR '':'' \<notin> set xs'"
    and "xs @ CHR '':'' # ys = xs' @ CHR '':'' # ys'"
  shows "xs = xs' \<and> ys = ys'"
  using assms
proof (induction xs arbitrary: xs')
  case Nil
  then show ?case by (cases xs') auto
next
  case (Cons x xs)
  then show ?case by (cases xs') auto
qed

lemma positionKeyString_inj: "positionKeyString a = positionKeyString b \<Longrightarrow> a = b"
proof -
  assume eq: "positionKeyString a = positionKeyString b"
  have colon: "\<not> isDigitChar CHR '':''" "CHR '':'' \<noteq> CHR ''-''" by (simp_all add: isDigitChar_def)
  have no: "CHR '':'' \<notin> set (numberToString i)" for i
    using numberToString_chars[of "CHR '':''" i] colon by blast
  from eq have "numberToString (fst a) @ CHR '':'' # numberToString (snd a) =
      numberToString (fst b) @ CHR '':'' # numberToString (snd b)"
    by (simp add: positionKeyString_def)
  from split_at_colon[OF no no this]
  have "fst a = fst b" "snd a = snd b" by (auto dest: numberToString_inj)
  then show "a = b" by (simp add: prod_eq_iff)
qed

lemma deriveConnectionKey_commute: "deriveConnectionKey a b = deriveConnectionKey b a"
proof -
  let ?ka = "createPositionKey (dot_x a) (dot_y a)" and ?kb = "createPositionKey (dot_x b) (dot_y b)"
  consider "stringLess (positionKeyString ?ka) (positionKeyString ?kb)"
    | "stringLess (positionKeyString ?kb) (positionKeyString ?ka)"
    | "\<not> stringLess (positionKeyString ?ka) (positionKeyString ?kb)"
      "\<not> stringLess (positionKeyString ?kb) (positionKeyString ?ka)" by blast
  then show ?thesis
  proof cases
    case 1
    with stringLess_asym[OF 1] show ?thesis by (simp add: deriveConnectionKey_def Let_def)
  next
    case 2
    with stringLess_asym[OF 2] show ?thesis by (simp add: deriveConnectionKey_def Let_def)
  next
    case 3
    from positionKeyString_inj[OF stringLess_total[OF 3]] 3 show ?thesis
      by (simp add: deriveConnectionKey_def Let_def)
  qed
qed

lemma deriveConnectionKey_position:
  "dot_x a = dot_x a' \<Longrightarrow> dot_y a = dot_y a' \<Longrightarrow> dot_x b = dot_x b' \<Longrightarrow> dot_y b = dot_y b' \<Longrightarrow>
   deriveConnectionKey a b = deriveConnectionKey a' b'"
  by (simp add: deriveConnectionKey_def)

lemma connectionKeys_fold_mono:
  "k \<in> keys \<Longrightarrow>
   k \<in> foldl (\<lambda>keys connection.
                 case (dotMap (conn_from connection), dotMap (conn_to connection)) of
                   (Some from, Some to) \<Rightarrow> insert (deriveConnectionKey from to) keys
                 | _ \<Rightarrow> keys) keys cs"
  by (induction cs arbitrary: keys) (auto split: option.splits)

lemma connectionKeys_fold_member:
  "c \<in> set cs \<Longrightarrow> dotMap (conn_from c) = Some a \<Longrightarrow> dotMap (conn_to c) = Some b \<Longrightarrow>
   deriveConnectionKey a b \<in>
     foldl (\<lambda>keys connection.
              case (dotMap (conn_from connection), dotMap (conn_to connection)) of
                (Some from, Some to) \<Rightarrow> insert (deriveConnectionKey from to) keys
              | _ \<Rightarrow> keys) keys cs"
proof (induction cs arbitrary: keys)
  case Nil
  then show ?case by simp
next
  case (Cons x cs)
  show ?case
  proof (cases "x = c")
    case True
    with Cons.prems show ?thesis
      using connectionKeys_fold_mono[of "deriveConnectionKey a b"
          "insert (deriveConnectionKey a b) keys" dotMap cs]
      by simp
  next
    case False
    with Cons.prems have "c \<in> set cs" by simp
    from Cons.IH[OF this Cons.prems(2,3)] show ?thesis by simp
  qed
qed

lemma deriveConnectionKeySet_member:
  "c \<in> set (frame_connections fr) \<Longrightarrow>
   deriveDotMap (frame_dots fr) (conn_from c) = Some a \<Longrightarrow>
   deriveDotMap (frame_dots fr) (conn_to c) = Some b \<Longrightarrow>
   deriveConnectionKey a b \<in> deriveConnectionKeySet (Some fr)"
  unfolding deriveConnectionKeySet_def Let_def option.case
  by (rule connectionKeys_fold_member)


subsection \<open>Connection paths\<close>

lemma buildConnectionPathsStep_resolved:
  assumes "dotMap (conn_from c) = Some f" "dotMap (conn_to c) = Some t"
  shows "buildConnectionPathsStep dotMap (paths, currentPath) c =
           (if currentPath = [] then (paths, [makeSegment c f t])
            else if sharesEndpoint (last currentPath) (makeSegment c f t)
            then (paths, currentPath @ [makeSegment c f t])
            else (paths @ [currentPath], [makeSegment c f t]))"
  using assms by (simp add: buildConnectionPathsStep_def makeSegment_def Let_def pushPath_def)

lemma sharesEndpoint_renumber:
  "sharesEndpoint (makeSegment (c\<lparr>conn_order := i\<rparr>) f t) (makeSegment (c'\<lparr>conn_order := j\<rparr>) f' t') =
   sharesEndpoint (makeSegment c f t) (makeSegment c' f' t')"
  by (simp add: sharesEndpoint_def makeSegment_def)

lemma ensureFrameOrder_three:
  assumes "conn_order c0 < conn_order c1" "conn_order c1 < conn_order c2"
    and "mset cs = mset [c0, c1, c2]"
  shows "ensureFrameOrder cs =
           [c0\<lparr>conn_order := 0\<rparr>, c1\<lparr>conn_order := 1\<rparr>, c2\<lparr>conn_order := 2\<rparr>]"
proof -
  from assms(3) have "set cs = {c0, c1, c2}" by (metis mset_eq_setD list.simps(15) empty_set)
  with assms(1,2) have "inj_on conn_order (set cs)" by (auto simp: inj_on_def)
  moreover from assms(1,2) have "sorted (map conn_order [c0, c1, c2])" by simp
  ultimately have "sort_key conn_order cs = [c0, c1, c2]"
    using assms(3) by (intro sort_key_inj_key_eq)
  then show ?thesis by (simp add: ensureFrameOrder_def enumerate_eq_zip upt_rec)
qed

text \<open>
  Claim C8. Three connections with increasing \<open>order\<close> values (such as 0, 1, 2), the
  first sharing an endpoint position with the second and the second with the third,
  given in any order of the input array (such as the orders 2, 0, 1):
  \<open>buildConnectionPaths\<close> returns one path with the three segments in ascending order,
  renumbered 0, 1, 2. In general \<open>ensureFrameOrder\<close> sorts by \<open>order\<close>, keeps the input
  order of connections with equal \<open>order\<close>, and numbers the result from 0.
\<close>

theorem chained_connections_form_one_path:
  assumes "conn_order c0 < conn_order c1" and "conn_order c1 < conn_order c2"
    and "dotMap (conn_from c0) = Some f0" and "dotMap (conn_to c0) = Some t0"
    and "dotMap (conn_from c1) = Some f1" and "dotMap (conn_to c1) = Some t1"
    and "dotMap (conn_from c2) = Some f2" and "dotMap (conn_to c2) = Some t2"
    and "sharesEndpoint (makeSegment c0 f0 t0) (makeSegment c1 f1 t1)"
    and "sharesEndpoint (makeSegment c1 f1 t1) (makeSegment c2 f2 t2)"
    and "mset cs = mset [c0, c1, c2]"
  shows "buildConnectionPaths cs dotMap =
           [[makeSegment (c0\<lparr>conn_order := 0\<rparr>) f0 t0,
             makeSegment (c1\<lparr>conn_order := 1\<rparr>) f1 t1,
             makeSegment (c2\<lparr>conn_order := 2\<rparr>) f2 t2]] \<and>
         (\<forall>connections :: DotPlayerConnection list.
            map conn_order (ensureFrameOrder connections) = map real [0 ..< length connections] \<and>
            map (\<lambda>c. c\<lparr>conn_order := 0\<rparr>) (ensureFrameOrder connections) =
              map (\<lambda>c. c\<lparr>conn_order := 0\<rparr>) (sort_key conn_order connections) \<and>
            sorted (map conn_order (sort_key conn_order connections)) \<and>
            (\<forall>k. filter (\<lambda>c. conn_order c = k) (sort_key conn_order connections) =
                 filter (\<lambda>c. conn_order c = k) connections))"
proof -
  let ?r0 = "c0\<lparr>conn_order := 0\<rparr>" and ?r1 = "c1\<lparr>conn_order := 1\<rparr>" and ?r2 = "c2\<lparr>conn_order := 2\<rparr>"
  have order: "ensureFrameOrder cs = [?r0, ?r1, ?r2]"
    using assms(1,2,11) by (rule ensureFrameOrder_three)
  have r: "dotMap (conn_from ?r0) = Some f0" "dotMap (conn_to ?r0) = Some t0"
    "dotMap (conn_from ?r1) = Some f1" "dotMap (conn_to ?r1) = Some t1"
    "dotMap (conn_from ?r2) = Some f2" "dotMap (conn_to ?r2) = Some t2"
    using assms(3-8) by simp_all
  have s01: "sharesEndpoint (makeSegment ?r0 f0 t0) (makeSegment ?r1 f1 t1)"
    using assms(9) by (simp only: sharesEndpoint_renumber)
  have s12: "sharesEndpoint (makeSegment ?r1 f1 t1) (makeSegment ?r2 f2 t2)"
    using assms(10) by (simp only: sharesEndpoint_renumber)
  have step1: "buildConnectionPathsStep dotMap ([], []) ?r0 = ([], [makeSegment ?r0 f0 t0])"
    by (simp add: buildConnectionPathsStep_resolved[OF r(1,2)])
  have step2: "buildConnectionPathsStep dotMap ([], [makeSegment ?r0 f0 t0]) ?r1 =
      ([], [makeSegment ?r0 f0 t0, makeSegment ?r1 f1 t1])"
    using s01 by (simp add: buildConnectionPathsStep_resolved[OF r(3,4)])
  have step3: "buildConnectionPathsStep dotMap ([], [makeSegment ?r0 f0 t0, makeSegment ?r1 f1 t1]) ?r2 =
      ([], [makeSegment ?r0 f0 t0, makeSegment ?r1 f1 t1, makeSegment ?r2 f2 t2])"
    using s12 by (simp add: buildConnectionPathsStep_resolved[OF r(5,6)])
  have paths: "buildConnectionPaths cs dotMap =
      [[makeSegment ?r0 f0 t0, makeSegment ?r1 f1 t1, makeSegment ?r2 f2 t2]]"
    unfolding buildConnectionPaths_def order
    by (simp only: foldl.simps step1 step2 step3) (simp add: pushPath_def)
  have general: "map conn_order (ensureFrameOrder connections) = map real [0 ..< length connections] \<and>
            map (\<lambda>c. c\<lparr>conn_order := 0\<rparr>) (ensureFrameOrder connections) =
              map (\<lambda>c. c\<lparr>conn_order := 0\<rparr>) (sort_key conn_order connections) \<and>
            sorted (map conn_order (sort_key conn_order connections)) \<and>
            (\<forall>k. filter (\<lambda>c. conn_order c = k) (sort_key conn_order connections) =
                 filter (\<lambda>c. conn_order c = k) connections)"
    for connections :: "DotPlayerConnection list"
  proof -
    let ?renumber = "\<lambda>(index, connection). connection\<lparr>conn_order := real index\<rparr>"
    have orders: "map conn_order (map ?renumber (enumerate n xs)) = map real [n ..< n + length xs]"
      for n and xs :: "DotPlayerConnection list"
    proof (induction xs arbitrary: n)
      case Nil
      show ?case by simp
    next
      case (Cons x xs)
      have "[n ..< n + length (x # xs)] = n # [Suc n ..< Suc n + length xs]"
        by (subst upt_rec) simp
      with Cons.IH[of "Suc n"] show ?case by simp
    qed
    have rest: "map (\<lambda>c. c\<lparr>conn_order := 0\<rparr>) (map ?renumber (enumerate n xs)) =
        map (\<lambda>c. c\<lparr>conn_order := 0\<rparr>) xs"
      for n and xs :: "DotPlayerConnection list"
      by (induction xs arbitrary: n) simp_all
    have "map conn_order (ensureFrameOrder connections) = map real [0 ..< length connections]"
      unfolding ensureFrameOrder_def using orders[of 0 "sort_key conn_order connections"] by simp
    moreover have "map (\<lambda>c. c\<lparr>conn_order := 0\<rparr>) (ensureFrameOrder connections) =
              map (\<lambda>c. c\<lparr>conn_order := 0\<rparr>) (sort_key conn_order connections)"
      unfolding ensureFrameOrder_def by (rule rest)
    moreover have "sorted (map conn_order (sort_key conn_order connections))"
      by (rule sorted_sort_key)
    moreover have "\<forall>k. filter (\<lambda>c. conn_order c = k) (sort_key conn_order connections) =
                 filter (\<lambda>c. conn_order c = k) connections"
      by (simp add: sort_key_stable)
    ultimately show ?thesis by blast
  qed
  from paths general show ?thesis by blast
qed

lemma exampleDotMap:
  "deriveDotMap [exampleDotA, exampleDotB, exampleDotC] ''A'' = Some exampleDotA"
  "deriveDotMap [exampleDotA, exampleDotB, exampleDotC] ''B'' = Some exampleDotB"
  "deriveDotMap [exampleDotA, exampleDotB, exampleDotC] ''C'' = Some exampleDotC"
  by (simp_all add: deriveDotMap_def exampleDotA_def exampleDotB_def exampleDotC_def)

theorem chained_connections_form_one_path_witness:
  "buildConnectionPaths [exampleConnectionCA, exampleConnection, exampleConnectionBC]
     (deriveDotMap [exampleDotA, exampleDotB, exampleDotC]) =
   [[makeSegment (exampleConnection\<lparr>conn_order := 0\<rparr>) exampleDotA exampleDotB,
     makeSegment (exampleConnectionBC\<lparr>conn_order := 1\<rparr>) exampleDotB exampleDotC,
     makeSegment (exampleConnectionCA\<lparr>conn_order := 2\<rparr>) exampleDotC exampleDotA]]"
proof -
  have o: "conn_order exampleConnection < conn_order exampleConnectionBC"
    "conn_order exampleConnectionBC < conn_order exampleConnectionCA"
    by (simp_all add: exampleConnection_def exampleConnectionBC_def exampleConnectionCA_def)
  have r: "deriveDotMap [exampleDotA, exampleDotB, exampleDotC] (conn_from exampleConnection) = Some exampleDotA"
    "deriveDotMap [exampleDotA, exampleDotB, exampleDotC] (conn_to exampleConnection) = Some exampleDotB"
    "deriveDotMap [exampleDotA, exampleDotB, exampleDotC] (conn_from exampleConnectionBC) = Some exampleDotB"
    "deriveDotMap [exampleDotA, exampleDotB, exampleDotC] (conn_to exampleConnectionBC) = Some exampleDotC"
    "deriveDotMap [exampleDotA, exampleDotB, exampleDotC] (conn_from exampleConnectionCA) = Some exampleDotC"
    "deriveDotMap [exampleDotA, exampleDotB, exampleDotC] (conn_to exampleConnectionCA) = Some exampleDotA"
    by (simp_all add: exampleConnection_def exampleConnectionBC_def exampleConnectionCA_def exampleDotMap)
  have s: "sharesEndpoint (makeSegment exampleConnection exampleDotA exampleDotB)
             (makeSegment exampleConnectionBC exampleDotB exampleDotC)"
    "sharesEndpoint (makeSegment exampleConnectionBC exampleDotB exampleDotC)
             (makeSegment exampleConnectionCA exampleDotC exampleDotA)"
    by (simp_all add: sharesEndpoint_def makeSegment_def isSamePoint_def)
  have m: "mset [exampleConnectionCA, exampleConnection, exampleConnectionBC] =
      mset [exampleConnection, exampleConnectionBC, exampleConnectionCA]"
    by (simp add: ac_simps)
  from chained_connections_form_one_path[OF o r s m] show ?thesis by blast
qed


section \<open>Properties of the colour cache\<close>

lemma parseColor_sound:
  assumes "cacheSound colorCache"
  shows "fst (parseColor colorCache v) = parseUncached (trim v)"
    and "cacheSound (snd (parseColor colorCache v))"
proof -
  show "fst (parseColor colorCache v) = parseUncached (trim v)"
  proof (cases "colorCache (trim v)")
    case None
    then show ?thesis
      by (cases "parseUncached (trim v)") (simp_all add: parseColor_def parseUncached_def Let_def)
  next
    case (Some cached)
    with assms have "parseUncached (trim v) = Some cached" by (simp add: cacheSound_def)
    with Some show ?thesis by (simp add: parseColor_def Let_def)
  qed
  show "cacheSound (snd (parseColor colorCache v))"
  proof (cases "colorCache (trim v)")
    case (Some cached)
    with assms show ?thesis by (simp add: parseColor_def Let_def)
  next
    case None
    show ?thesis
    proof (cases "parseUncached (trim v)")
      case None
      with \<open>colorCache (trim v) = None\<close> assms show ?thesis
        by (simp add: parseColor_def parseUncached_def Let_def)
    next
      case (Some p)
      with \<open>colorCache (trim v) = None\<close>
      have "snd (parseColor colorCache v) = colorCache(trim v \<mapsto> p)"
        by (simp add: parseColor_def parseUncached_def Let_def)
      with assms Some show ?thesis by (auto simp: cacheSound_def)
    qed
  qed
qed

lemma reachableCache_sound: "reachableCache colorCache \<Longrightarrow> cacheSound colorCache"
proof (induction rule: reachableCache.induct)
  case initial
  show ?case by (simp add: cacheSound_def)
next
  case (parsed colorCache v)
  then show ?case by (simp add: parseColor_sound(2))
qed

lemma mixColors_sound:
  assumes "cacheSound c1" "cacheSound c2"
  shows "fst (mixColors c1 from to amount) = fst (mixColors c2 from to amount)"
proof -
  have "fst (mixColors c from to amount) =
      (case (parseUncached (trim from), parseUncached (trim to)) of
         (Some fc, Some tc) \<Rightarrow>
           Some (RgbaString
             (mathRound (rgba_r fc + (rgba_r tc - rgba_r fc) * clamp amount 0 1))
             (mathRound (rgba_g fc + (rgba_g tc - rgba_g fc) * clamp amount 0 1))
             (mathRound (rgba_b fc + (rgba_b tc - rgba_b fc) * clamp amount 0 1))
             (real_of_int (mathRound ((rgba_a fc + (rgba_a tc - rgba_a fc) * clamp amount 0 1) * 1000)) / 1000))
       | _ \<Rightarrow> None)" if "cacheSound c" for c
  proof -
    obtain fromColor cache1 where p1: "parseColor c from = (fromColor, cache1)" by (cases "parseColor c from")
    obtain toColor cache2 where p2: "parseColor cache1 to = (toColor, cache2)" by (cases "parseColor cache1 to")
    from parseColor_sound[OF that, of "from"] p1
    have f: "fromColor = parseUncached (trim from)" "cacheSound cache1" by simp_all
    from parseColor_sound[OF f(2), of to] p2
    have t: "toColor = parseUncached (trim to)" by simp
    show ?thesis
      by (simp add: mixColors_def p1 p2 f(1)[symmetric] t[symmetric] Let_def split: option.splits)
  qed
  from this[OF assms(1)] this[OF assms(2)] show ?thesis by simp
qed

lemma mixColors_reachable:
  "reachableCache c \<Longrightarrow> reachableCache (snd (mixColors c from to amount))"
proof -
  assume r: "reachableCache c"
  obtain fromColor cache1 where p1: "parseColor c from = (fromColor, cache1)" by (cases "parseColor c from")
  obtain toColor cache2 where p2: "parseColor cache1 to = (toColor, cache2)" by (cases "parseColor cache1 to")
  from reachableCache.parsed[OF r, of "from"] p1 have "reachableCache cache1" by simp
  from reachableCache.parsed[OF this, of to] p2 have "reachableCache cache2" by simp
  moreover have "snd (mixColors c from to amount) = cache2"
    by (simp add: mixColors_def p1 p2 Let_def split: option.splits)
  ultimately show ?thesis by simp
qed

lemma renderDot_cache:
  assumes "reachableCache c1" "reachableCache c2"
  shows "fst (renderDot context fr prev nxt prevDotColors easedTime dotStagger fadeOutDefault
                colorTransitionProgress dotToGroup c1 index dot) =
         fst (renderDot context fr prev nxt prevDotColors easedTime dotStagger fadeOutDefault
                colorTransitionProgress dotToGroup c2 index dot)"
    and "reachableCache (snd (renderDot context fr prev nxt prevDotColors easedTime dotStagger
                fadeOutDefault colorTransitionProgress dotToGroup c1 index dot))"
proof -
  from assms have s: "cacheSound c1" "cacheSound c2" by (simp_all add: reachableCache_sound)
  note m = mixColors_sound[OF s]
  show "fst (renderDot context fr prev nxt prevDotColors easedTime dotStagger fadeOutDefault
                colorTransitionProgress dotToGroup c1 index dot) =
         fst (renderDot context fr prev nxt prevDotColors easedTime dotStagger fadeOutDefault
                colorTransitionProgress dotToGroup c2 index dot)"
    by (simp add: renderDot_def Let_def m split: option.splits)
  show "reachableCache (snd (renderDot context fr prev nxt prevDotColors easedTime dotStagger
                fadeOutDefault colorTransitionProgress dotToGroup c1 index dot))"
    using assms(1) by (simp add: renderDot_def Let_def mixColors_reachable split: option.splits)
qed

lemma renderDotsFrom_cache:
  assumes "reachableCache c1" "reachableCache c2"
  shows "fst (renderDotsFrom context fr prev nxt prevDotColors easedTime dotStagger fadeOutDefault
                colorTransitionProgress dotToGroup c1 index dots) =
         fst (renderDotsFrom context fr prev nxt prevDotColors easedTime dotStagger fadeOutDefault
                colorTransitionProgress dotToGroup c2 index dots) \<and>
         reachableCache (snd (renderDotsFrom context fr prev nxt prevDotColors easedTime dotStagger
                fadeOutDefault colorTransitionProgress dotToGroup c1 index dots))"
  using assms
proof (induction dots arbitrary: c1 c2 index)
  case Nil
  then show ?case by simp
next
  case (Cons dot dots)
  let ?d = "\<lambda>c. renderDot context fr prev nxt prevDotColors easedTime dotStagger fadeOutDefault
                colorTransitionProgress dotToGroup c index dot"
  from renderDot_cache[OF Cons.prems]
  have ops: "fst (?d c1) = fst (?d c2)" and r1: "reachableCache (snd (?d c1))" by simp_all
  from renderDot_cache(2)[OF Cons.prems(2) Cons.prems(1)]
  have r2: "reachableCache (snd (?d c2))" by simp
  from Cons.IH[OF r1 r2, of "Suc index"] ops show ?case
    by (simp add: case_prod_unfold)
qed

text \<open>
  Claim C1. \<open>renderFrame\<close> is deterministic whatever was drawn before: called with the same
  context, state and auto-connections on two colour caches that earlier calls can have
  left behind, it makes the same canvas calls and ends the same way, and the cache it
  leaves behind is again one that calls can leave behind, so the same holds for every
  later call.
\<close>

theorem renderFrame_deterministic:
  assumes "reachableCache c1" and "reachableCache c2"
  shows "fst (renderFrame c1 context state autoConnections) =
           fst (renderFrame c2 context state autoConnections) \<and>
         snd (snd (renderFrame c1 context state autoConnections)) =
           snd (snd (renderFrame c2 context state autoConnections)) \<and>
         reachableCache (fst (snd (renderFrame c1 context state autoConnections)))"
proof -
  let ?dots = "\<lambda>c. renderDotsFrom context (state_frame state) (prevDotPositionsOf state)
      (nextDotPositionsOf state) (prevDotColorsOf state)
      (easedTimeOf (state_frame state) (state_playhead state))
      (effectiveDotStagger (state_frame state))
      (max (frame_dotFadeOutDuration (state_frame state)) 1)
      (colorTransitionProgressOf (state_frame state) (state_playhead state))
      (buildDotToGroupMap (frame_groups (state_frame state))) c 0
      (frame_dots (state_frame state))"
  from renderDotsFrom_cache[OF assms]
  have d: "fst (?dots c1) = fst (?dots c2)" "reachableCache (snd (?dots c1))" by blast+
  define auto where "auto =
      (case autoConnections of
         None \<Rightarrow> ([], Returned)
       | Some acs \<Rightarrow>
           if length acs > 0
           then (case cumulativeTimeOf (state_frames state) (state_frameIndex state)
                        (state_playhead state) of
                   None \<Rightarrow> ([], ThrewTypeError)
                 | Some cumulativeTime \<Rightarrow>
                     renderAutoConnections context (state_frame state) acs cumulativeTime)
           else ([], Returned))"
  define before where "before =
      [ClearRect 0 0 (ctx_canvasSize context) (ctx_canvasSize context),
       Save,
       Translate (ctx_gridOffset context) (ctx_gridOffset context)] @
      (if ctx_showGrid context then renderGrid context else []) @
      [SetLineWidth (max 1 (ctx_dotRadius context * ctx_connectionStrokeScale context))] @
      renderExistingConnections context (state_frame state)
        (deriveDotMap (frame_dots (state_frame state)))
        (prevConnectionKeysOf state) (nextConnectionKeysOf state)
        (easedTimeOf (state_frame state) (state_playhead state))
        (max (frame_dotFadeOutDuration (state_frame state)) 1)
        (buildConnectionToGroupMap (frame_groups (state_frame state))) @
      (if frame_animateConnections (state_frame state)
       then renderAnimatingConnections context (state_frame state)
              (deriveDotMap (frame_dots (state_frame state)))
              (prevConnectionKeysOf state) (nextConnectionKeysOf state)
              (easedTimeOf (state_frame state) (state_playhead state))
              (max (frame_dotFadeOutDuration (state_frame state)) 1)
              (buildConnectionToGroupMap (frame_groups (state_frame state)))
       else [])"
  have eq: "renderFrame c context state autoConnections =
        (if snd auto \<noteq> Returned then (before @ fst auto, c, snd auto)
         else (before @ fst auto @ fst (?dots c) @ [Restore], snd (?dots c), Returned))" for c
    unfolding renderFrame_def Let_def renderDots_def auto_def[symmetric] before_def[symmetric]
    by (simp add: case_prod_unfold)
  show ?thesis
    unfolding eq using d assms(1) by simp
qed

theorem renderFrame_deterministic_witness:
  "reachableCache Map.empty \<and>
   reachableCache (snd (parseColor Map.empty ''#fff'')) \<and>
   fst (renderFrame Map.empty exampleContext exampleState (Some [exampleAutoConnection])) =
     fst (renderFrame (snd (parseColor Map.empty ''#fff'')) exampleContext exampleState
            (Some [exampleAutoConnection]))"
  using renderFrame_deterministic[OF reachableCache.initial
      reachableCache.parsed[OF reachableCache.initial, of "''#fff''"],
      of exampleContext exampleState "Some [exampleAutoConnection]"]
    reachableCache.initial reachableCache.parsed[OF reachableCache.initial, of "''#fff''"]
  by simp

section \<open>Properties of dangling connections\<close>

lemma foldl_filter_skip:
  "(\<And>acc x. x \<in> set xs \<Longrightarrow> \<not> P x \<Longrightarrow> step acc x = acc) \<Longrightarrow>
   foldl step acc (filter P xs) = foldl step acc xs"
  by (induction xs arbitrary: acc) auto

lemma concat_map_filter_skip:
  "(\<And>x. x \<in> set xs \<Longrightarrow> \<not> P x \<Longrightarrow> f x = []) \<Longrightarrow>
   concat (map f (filter P xs)) = concat (map f xs)"
  by (induction xs) auto

lemma filter_filter_skip:
  "(\<And>x. x \<in> set xs \<Longrightarrow> \<not> P x \<Longrightarrow> \<not> Q x) \<Longrightarrow> filter Q (filter P xs) = filter Q xs"
  by (induction xs) auto

lemma withoutConnection_fields [simp]:
  "frame_dots (withoutConnection c fr) = frame_dots fr"
  "frame_groups (withoutConnection c fr) = frame_groups fr"
  "frame_duration (withoutConnection c fr) = frame_duration fr"
  "frame_easing (withoutConnection c fr) = frame_easing fr"
  "frame_dotFadeInDuration (withoutConnection c fr) = frame_dotFadeInDuration fr"
  "frame_dotFadeOutDuration (withoutConnection c fr) = frame_dotFadeOutDuration fr"
  "frame_dotColorTransitionDuration (withoutConnection c fr) = frame_dotColorTransitionDuration fr"
  "frame_dotColorTransitionEasing (withoutConnection c fr) = frame_dotColorTransitionEasing fr"
  "frame_connectionAnimationDuration (withoutConnection c fr) = frame_connectionAnimationDuration fr"
  "frame_connectionStagger (withoutConnection c fr) = frame_connectionStagger fr"
  "frame_dotStagger (withoutConnection c fr) = frame_dotStagger fr"
  "frame_animateDots (withoutConnection c fr) = frame_animateDots fr"
  "frame_animateConnections (withoutConnection c fr) = frame_animateConnections fr"
  "frame_connections (withoutConnection c fr) = filter (\<lambda>x. x \<noteq> c) (frame_connections fr)"
  by (simp_all add: withoutConnection_def)

lemma dangling_keySet:
  assumes "dangling fr c"
  shows "deriveConnectionKeySet (Some (withoutConnection c fr)) = deriveConnectionKeySet (Some fr)"
  unfolding deriveConnectionKeySet_def Let_def option.case withoutConnection_fields
  using assms by (intro foldl_filter_skip) (auto simp: dangling_def split: option.splits)

lemma dangling_existing:
  assumes "dangling fr c"
  shows "renderExistingConnection context fr' (deriveDotMap (frame_dots fr)) prev nxt easedTime
           fadeOutDefault connectionToGroup c = []"
  using assms by (auto simp: renderExistingConnection_def dangling_def split: option.splits)

lemma dangling_step:
  assumes "dangling fr c"
  shows "buildConnectionPathsStep (deriveDotMap (frame_dots fr)) st c = st"
  using assms by (auto simp: buildConnectionPathsStep_def dangling_def split: option.splits)

lemma renderExistingConnection_without:
  "renderExistingConnection context (withoutConnection c fr) = renderExistingConnection context fr"
  by (intro ext) (simp only: renderExistingConnection_def withoutConnection_fields)

lemma renderExistingConnections_without:
  assumes "dangling fr c"
  shows "renderExistingConnections context (withoutConnection c fr) (deriveDotMap (frame_dots fr))
           prev nxt easedTime fadeOutDefault connectionToGroup =
         renderExistingConnections context fr (deriveDotMap (frame_dots fr))
           prev nxt easedTime fadeOutDefault connectionToGroup"
  unfolding renderExistingConnections_def renderExistingConnection_without withoutConnection_fields
  using dangling_existing[OF assms] by (intro concat_map_filter_skip) simp

lemma renderSegment_without:
  "renderSegment context (withoutConnection c fr) = renderSegment context fr"
  by (intro ext) (simp only: renderSegment_def withoutConnection_fields)

lemma renderPath_without:
  "renderPath context (withoutConnection c fr) = renderPath context fr"
  by (intro ext) (simp only: renderPath_def renderSegment_without withoutConnection_fields)

lemma renderAnimatingConnections_without:
  assumes "dangling fr c"
  shows "renderAnimatingConnections context (withoutConnection c fr) (deriveDotMap (frame_dots fr))
           prev nxt easedTime fadeOutDefault connectionToGroup =
         renderAnimatingConnections context fr (deriveDotMap (frame_dots fr))
           prev nxt easedTime fadeOutDefault connectionToGroup"
proof -
  let ?new = "\<lambda>connection.
                case (deriveDotMap (frame_dots fr) (conn_from connection),
                      deriveDotMap (frame_dots fr) (conn_to connection)) of
                  (Some from, Some to) \<Rightarrow> deriveConnectionKey from to \<notin> prev
                | _ \<Rightarrow> False"
  have "\<not> ?new c" using assms by (auto simp: dangling_def split: option.splits)
  then have "filter ?new (filter (\<lambda>x. x \<noteq> c) (frame_connections fr)) = filter ?new (frame_connections fr)"
    by (intro filter_filter_skip) auto
  then show ?thesis
    unfolding renderAnimatingConnections_def Let_def renderPath_without withoutConnection_fields
    by simp
qed

lemma dotDelay_etc_without:
  "dotAlpha (withoutConnection c fr) = dotAlpha fr"
  by (intro ext)
     (simp only: dotAlpha_def dotFadeIn_def dotFadeOut_def dotFadeInDuration_def
        dotFadeOutDuration_def dotDelay_def withoutConnection_fields)

lemma renderDot_without:
  "renderDot context (withoutConnection c fr) = renderDot context fr"
  by (intro ext) (simp only: renderDot_def dotDelay_etc_without withoutConnection_fields)

lemma renderDotsFrom_without:
  "renderDotsFrom context (withoutConnection c fr) prev nxt prevColors easedTime dotStagger
     fadeOutDefault progress dotToGroup colorCache index dots =
   renderDotsFrom context fr prev nxt prevColors easedTime dotStagger
     fadeOutDefault progress dotToGroup colorCache index dots"
  by (induction dots arbitrary: colorCache index) (simp_all add: renderDot_without)

lemma renderDots_without:
  "renderDots context (withoutConnection c fr) = renderDots context fr"
  by (intro ext) (simp only: renderDots_def renderDotsFrom_without withoutConnection_fields)

lemma renderAutoConnections_without:
  "renderAutoConnections context (withoutConnection c fr) = renderAutoConnections context fr"
  by (intro ext) (simp only: renderAutoConnections_def withoutConnection_fields)

lemma easedTimeOf_without: "easedTimeOf (withoutConnection c fr) = easedTimeOf fr"
  by (intro ext) (simp only: easedTimeOf_def withoutConnection_fields)

lemma effectiveDotStagger_without:
  "effectiveDotStagger (withoutConnection c fr) = effectiveDotStagger fr"
  by (simp only: effectiveDotStagger_def withoutConnection_fields)

lemma colorTransitionProgressOf_without:
  "colorTransitionProgressOf (withoutConnection c fr) = colorTransitionProgressOf fr"
  by (intro ext) (simp only: colorTransitionProgressOf_def withoutConnection_fields)

lemma withoutConnectionIn_fields [simp]:
  "frame_dots (withoutConnectionIn fr c f) = frame_dots f"
  "frame_duration (withoutConnectionIn fr c f) = frame_duration f"
  by (simp_all add: withoutConnectionIn_def)

lemma withoutConnectionIn_keySet:
  "dangling fr c \<Longrightarrow>
   deriveConnectionKeySet (map_option (withoutConnectionIn fr c) neighbour) =
   deriveConnectionKeySet neighbour"
  by (cases neighbour) (simp_all add: withoutConnectionIn_def dangling_keySet)

lemma withoutConnectionIn_colorMap:
  "deriveDotColorMap (map_option (withoutConnectionIn fr c) neighbour) = deriveDotColorMap neighbour"
  by (cases neighbour) (simp_all add: deriveDotColorMap_def)

lemma withoutConnection_colorMap:
  "deriveDotColorMap (Some (withoutConnection c fr)) = deriveDotColorMap (Some fr)"
  by (simp add: deriveDotColorMap_def)

lemma frameAt_map: "frameAt (map g frames) i = map_option g (frameAt frames i)"
proof (cases "0 \<le> i \<and> i < int (length frames)")
  case True
  then have "nat i < length frames" by linarith
  then show ?thesis using True by (simp add: frameAt_def)
next
  case False
  then show ?thesis by (auto simp: frameAt_def)
qed

lemma withoutConnectionState_fields [simp]:
  "state_frame (withoutConnectionState c state) = withoutConnection c (state_frame state)"
  "state_frames (withoutConnectionState c state) =
     map (withoutConnectionIn (state_frame state) c) (state_frames state)"
  "state_frameIndex (withoutConnectionState c state) = state_frameIndex state"
  "state_totalFrames (withoutConnectionState c state) = state_totalFrames state"
  "state_playhead (withoutConnectionState c state) = state_playhead state"
  "state_settings (withoutConnectionState c state) = state_settings state"
  by (simp_all add: withoutConnectionState_def)

lemma prevFrameOf_without:
  "prevFrameOf (withoutConnectionState c state) =
   map_option (withoutConnectionIn (state_frame state) c) (prevFrameOf state)"
  by (simp add: prevFrameOf_def Let_def frameAt_map)

lemma nextFrameOf_without:
  "nextFrameOf (withoutConnectionState c state) =
   map_option (withoutConnectionIn (state_frame state) c) (nextFrameOf state)"
  by (simp add: nextFrameOf_def Let_def frameAt_map)

lemma prevDotPositionsOf_without:
  "prevDotPositionsOf (withoutConnectionState c state) = prevDotPositionsOf state"
  by (cases "prevFrameOf state") (simp_all add: prevDotPositionsOf_def Let_def prevFrameOf_without)

lemma nextDotPositionsOf_without:
  "nextDotPositionsOf (withoutConnectionState c state) = nextDotPositionsOf state"
  by (cases "nextFrameOf state") (simp_all add: nextDotPositionsOf_def Let_def nextFrameOf_without)

lemma prevDotColorsOf_without:
  "prevDotColorsOf (withoutConnectionState c state) = prevDotColorsOf state"
  by (simp add: prevDotColorsOf_def Let_def prevFrameOf_without withoutConnectionIn_colorMap
        withoutConnection_colorMap)

lemma prevConnectionKeysOf_without:
  "dangling (state_frame state) c \<Longrightarrow>
   prevConnectionKeysOf (withoutConnectionState c state) = prevConnectionKeysOf state"
  by (simp add: prevConnectionKeysOf_def Let_def prevFrameOf_without withoutConnectionIn_keySet
        dangling_keySet)

lemma nextConnectionKeysOf_without:
  "dangling (state_frame state) c \<Longrightarrow>
   nextConnectionKeysOf (withoutConnectionState c state) = nextConnectionKeysOf state"
  by (simp add: nextConnectionKeysOf_def Let_def nextFrameOf_without withoutConnectionIn_keySet
        dangling_keySet)

lemma foldl_durations_map:
  "foldl (\<lambda>t fr. t + frame_duration fr) a (map (withoutConnectionIn fr c) frames) =
   foldl (\<lambda>t fr. t + frame_duration fr) a frames"
  by (induction frames arbitrary: a) simp_all

lemma cumulativeTimeOf_without:
  "cumulativeTimeOf (map (withoutConnectionIn fr c) frames) frameIndex playhead =
   cumulativeTimeOf frames frameIndex playhead"
  by (simp add: cumulativeTimeOf_def take_map foldl_durations_map)

lemma renderFrame_without:
  assumes "dangling (state_frame state) c"
  shows "renderFrame colorCache context (withoutConnectionState c state) autoConnections =
         renderFrame colorCache context state autoConnections"
  unfolding renderFrame_def Let_def
  by (simp only: withoutConnectionState_fields withoutConnection_fields
        easedTimeOf_without effectiveDotStagger_without colorTransitionProgressOf_without
        prevDotPositionsOf_without nextDotPositionsOf_without prevDotColorsOf_without
        prevConnectionKeysOf_without[OF assms] nextConnectionKeysOf_without[OF assms]
        cumulativeTimeOf_without renderDots_without renderAutoConnections_without
        renderExistingConnections_without[OF assms] renderAnimatingConnections_without[OF assms])

lemma renderFrame_returns:
  "snd (snd (renderFrame colorCache context state None)) = Returned"
  by (simp add: renderFrame_def Let_def case_prod_unfold)



end
